theory Spec2Isabelle
  imports Main "HOL-Library.Word" "HOL-Library.Sublist"
begin

section \<open>Data model\<close>

text \<open>
  Go's fixed-width integers are words: \<open>uint64\<close> is \<open>64 word\<close>, whose order is the
  unsigned one, and \<open>int\<close> (64 bits on the platforms raft runs on) has the same 64 bits,
  read in two's complement by \<open>sint\<close>. A conversion between \<open>int\<close> and \<open>uint64\<close> keeps
  the bits, so it is the identity on the word.
\<close>

type_synonym uint64 = "64 word"
type_synonym go_int = "64 word"
type_synonym byte = "8 word"

text \<open>
  \<open>raftpb.EntryType\<close> is an enumeration generated from the protocol description; a value
  outside the three declared kinds keeps its number.
\<close>

datatype EntryType = EntryNormal | EntryConfChange | EntryConfChangeV2 | EntryTypeOther "32 word"

text \<open>
  \<open>raftpb.Entry\<close>. \<open>Data\<close> is a Go byte slice: \<open>None\<close> is the nil slice, which has
  length 0 like the empty one.
\<close>

record Entry =
  Term :: uint64
  Index :: uint64
  Type :: EntryType
  Data :: "byte list option"

definition len_bytes :: "byte list option \<Rightarrow> nat" where
  "len_bytes b = (case b of None \<Rightarrow> 0 | Some bs \<Rightarrow> length bs)"

text \<open>What stops a Go program: a run-time panic of an index or a nil call, or \<open>panic(...)\<close>.\<close>

datatype fault = IndexOutOfRange | NilDereference | Panic string

text \<open>
  The names of the message kinds. \<open>raftpb.MessageType\<close> itself is a protobuf enumeration,
  which in Go is an \<open>int32\<close>: a message can carry any 32-bit value, read in two's
  complement by \<open>sint\<close>. The numbers that the generated package gives to the names are
  not among the sources at hand, so the functions below take the numbering as the
  parameter \<open>raftpb\<close> and write \<open>raftpb MsgHup\<close> for the constant \<open>raftpb.MsgHup\<close>.
\<close>

datatype MsgName =
    MsgHup | MsgBeat | MsgProp | MsgApp | MsgAppResp | MsgVote | MsgVoteResp | MsgSnap
  | MsgHeartbeat | MsgHeartbeatResp | MsgUnreachable | MsgSnapStatus | MsgCheckQuorum
  | MsgTransferLeader | MsgTimeoutNow | MsgReadIndex | MsgReadIndexResp | MsgPreVote
  | MsgPreVoteResp | MsgStorageAppend | MsgStorageAppendResp | MsgStorageApply
  | MsgStorageApplyResp | MsgForgetLeader

type_synonym MessageType = "32 word"

text \<open>
  A Go slice of entries is a window on an array: \<open>s_arr\<close> holds the cells of the array
  from the start of the slice to its capacity, and the first \<open>s_len\<close> of them are the
  elements of the slice. In a slice of the program \<open>s_len\<close> is at most the number of cells.
\<close>

record slice =
  s_arr :: "Entry list"
  s_len :: nat

text \<open>
  What \<open>DescribeEntry\<close> calls from the \<open>fmt\<close> and \<open>raftpb\<close> packages, as parameters:
  the verbs \<open>%q\<close> on bytes and \<open>%d\<close> on a \<open>uint64\<close>, the name of an entry type, the two
  \<open>Unmarshal\<close> methods (an error text, or the changes of the decoded value seen as a
  \<open>ConfChangeV2\<close>), and \<open>ConfChangesToString\<close>.
\<close>

record 'c describe_env =
  fmt_q :: "byte list option \<Rightarrow> string"
  fmt_d :: "uint64 \<Rightarrow> string"
  EntryType_String :: "EntryType \<Rightarrow> string"
  Unmarshal_ConfChange :: "byte list option \<Rightarrow> string + 'c"
  Unmarshal_ConfChangeV2 :: "byte list option \<Rightarrow> string + 'c"
  ConfChangesToString :: "'c \<Rightarrow> string"

text \<open>An \<open>EntryFormatter\<close> is a function value, and nil (\<open>None\<close>) is one of its values.\<close>

type_synonym EntryFormatter = "(byte list option \<Rightarrow> string) option"

subsection \<open>Messages, nodes and the test network\<close>

text \<open>
  Modelled from the spec: \<open>raftpb.Message\<close>, whose declaration is generated code outside
  the sources at hand. Section 3 gives its fields: type, from, to, term, logTerm, index,
  entries, commit, reject and its hint. The vote field, the snapshot, the nested
  responses and the context are left out: no function below reads them. The type is held
  by name, since every message the core builds has one of the declared kinds.
\<close>

record Message =
  mType :: MsgName
  mTo :: uint64
  mFrom :: uint64
  mTerm :: uint64
  mLogTerm :: uint64
  mIndex :: uint64
  mEntries :: "Entry list"
  mCommit :: uint64
  mReject :: bool
  mRejectHint :: uint64

text \<open>
  Modelled from the spec: \<open>StateType\<close> (raft.go is not among the sources). Section 4.1
  names the four roles; raft2.go uses the names \<open>StateLeader\<close>, \<open>StateCandidate\<close>,
  \<open>StatePreCandidate\<close> and \<open>StateFollower\<close>.
\<close>

datatype StateType = StateFollower | StateCandidate | StateLeader | StatePreCandidate

text \<open>
  Modelled from the spec: the per-peer \<open>Progress\<close> of section 3 (match index, next index,
  mode, and whether sending is paused while a probe awaits its acknowledgement). The
  in-flight window and the pending snapshot are left out.
\<close>

datatype ProgressStateType = StateProbe | StateReplicate | StateSnapshot

record Progress =
  pMatch :: uint64
  pNext :: uint64
  pState :: ProgressStateType
  pPaused :: bool

text \<open>
  Modelled from the spec: \<open>MemoryStorage\<close>, the storage capability of section 6, reduced
  to what raft2.go sets and the core reads at start: the voters of the snapshot's
  configuration and the persisted entries.
\<close>

record MemoryStorage =
  ms_voters :: "uint64 list"
  ms_ents :: "Entry list"

text \<open>
  Modelled from the spec: \<open>Config\<close>. The first six fields are those that
  \<open>newTestConfig\<close> sets, \<open>PreVote\<close> is set by \<open>preVoteConfig\<close>, and \<open>CheckQuorum\<close> is
  the check-quorum option of section 6.
\<close>

record Config =
  ID :: uint64
  ElectionTick :: int
  HeartbeatTick :: int
  Storage :: MemoryStorage
  MaxSizePerMsg :: uint64
  MaxInflightMsgs :: int
  PreVote :: bool
  CheckQuorum :: bool

text \<open>
  Modelled from the spec: the state of a node, \<open>raft\<close> in raft.go (not among the
  sources). raft2.go reads and writes the fields \<open>id\<close>, \<open>Term\<close>, \<open>state\<close>, \<open>msgs\<close> and
  \<open>msgsAfterAppend\<close> (here \<open>rid\<close>, \<open>rTerm\<close>, \<open>rstate\<close>); the others are the hard and soft
  state of section 3, the log with its commit index (section 4.2, the unstable and the
  persisted entries as one list), the voters and the votes received (section 4.3), the
  progress of each peer (section 4.4) and the options of section 6.
\<close>

record raft =
  rid :: uint64
  rTerm :: uint64
  rVote :: uint64
  rstate :: StateType
  rlead :: uint64
  raftLog :: "Entry list"
  committed :: uint64
  voters :: "uint64 list"
  votes :: "uint64 \<Rightarrow> bool option"
  prs :: "uint64 \<Rightarrow> Progress option"
  msgs :: "Message list"
  msgsAfterAppend :: "Message list"
  preVote :: bool
  checkQuorum :: bool
  electionElapsed :: int
  electionTimeout :: int

text \<open>
  The interface \<open>stateMachine\<close> of raft2.go has two implementations, a node and the
  \<open>blackHole\<close>; a nil interface value is \<open>None\<close> of the option type.
\<close>

datatype stateMachine = SM_raft raft | SM_blackHole

text \<open>
  The \<open>network\<close> of raft2.go. The field \<open>t\<close> is left out: no constructor of raft2.go sets
  it, and \<open>send\<close> uses it only to log. A Go map is a partial function; reading a key
  that is absent gives the zero value of the element type.
\<close>

record network =
  peers :: "uint64 \<Rightarrow> stateMachine option"
  storage :: "uint64 \<Rightarrow> MemoryStorage option"
  dropm64 :: "uint64 \<times> uint64 \<Rightarrow> uint64 option"
  ignorem :: "MsgName \<Rightarrow> bool option"
  msgHook :: "(Message \<Rightarrow> bool) option"

text \<open>\<open>testLeaderElectionStruct\<close> of raft2.go.\<close>

record testLeaderElectionStruct =
  tt_network :: network
  tt_state :: StateType
  tt_expTerm :: uint64

section \<open>Entry sizes (util.go)\<close>

text \<open>
  \<open>Entry.Size()\<close> is generated protobuf code outside the sources at hand, so every
  function that calls it takes it as the parameter \<open>Size\<close>; it returns a Go \<open>int\<close>.
\<close>

type_synonym entryEncodingSize = uint64

definition entsSize :: "(Entry \<Rightarrow> go_int) \<Rightarrow> Entry list \<Rightarrow> entryEncodingSize" where
  "entsSize Size ents = fold (\<lambda>ent sz. sz + Size ent) ents 0"

text \<open>
  The loop of \<open>limitSize\<close>, entered with the running size \<open>sz\<close> and the next index
  \<open>limit\<close>. The comparison is the unsigned one of \<open>entryEncodingSize\<close>.
\<close>

function limitSize_loop ::
  "(Entry \<Rightarrow> go_int) \<Rightarrow> Entry list \<Rightarrow> entryEncodingSize \<Rightarrow> go_int \<Rightarrow> nat \<Rightarrow> Entry list" where
  "limitSize_loop Size ents maxSize sz limit =
     (if limit < length ents then
        (let sz' = sz + Size (ents ! limit) in
         if sz' > maxSize then take limit ents
         else limitSize_loop Size ents maxSize sz' (Suc limit))
      else ents)"
  by pat_completeness auto
termination
  by (relation "measure (\<lambda>(Size, ents, maxSize, sz, limit). length ents - limit)") auto

definition limitSize :: "(Entry \<Rightarrow> go_int) \<Rightarrow> Entry list \<Rightarrow> entryEncodingSize \<Rightarrow> Entry list" where
  "limitSize Size ents maxSize =
     (if length ents = 0 then ents
      else limitSize_loop Size ents maxSize (Size (ents ! 0)) 1)"

type_synonym entryPayloadSize = uint64

definition payloadSize :: "Entry \<Rightarrow> entryPayloadSize" where
  "payloadSize e = of_nat (len_bytes (Data e))"

definition payloadsSize :: "Entry list \<Rightarrow> entryPayloadSize" where
  "payloadsSize ents = fold (\<lambda>e s. s + payloadSize e) ents 0"

text \<open>The mathematical total of the encoded sizes, each read as a non-negative number.\<close>

definition total_size :: "(Entry \<Rightarrow> go_int) \<Rightarrow> Entry list \<Rightarrow> nat" where
  "total_size Size ents = sum_list (map (\<lambda>e. unat (Size e)) ents)"

section \<open>Message kinds (util.go)\<close>

text \<open>
  A Go array literal \<open>[...]bool{k1: true, k2: true, ...}\<close> with constant keys: its length
  is the largest key plus one, and the element at \<open>i\<close> is true exactly when \<open>i\<close> is a key.
\<close>

definition keyed_bools :: "int list \<Rightarrow> bool list" where
  "keyed_bools ks = map (\<lambda>i. int i \<in> set ks) [0 ..< nat (fold max ks (- 1) + 1)]"

definition isLocalMsg :: "(MsgName \<Rightarrow> MessageType) \<Rightarrow> bool list" where
  "isLocalMsg raftpb = keyed_bools (map (\<lambda>k. sint (raftpb k))
     [MsgHup, MsgBeat, MsgUnreachable, MsgSnapStatus, MsgCheckQuorum, MsgStorageAppend,
      MsgStorageAppendResp, MsgStorageApply, MsgStorageApplyResp])"

definition isResponseMsg :: "(MsgName \<Rightarrow> MessageType) \<Rightarrow> bool list" where
  "isResponseMsg raftpb = keyed_bools (map (\<lambda>k. sint (raftpb k))
     [MsgAppResp, MsgVoteResp, MsgHeartbeatResp, MsgUnreachable, MsgReadIndexResp,
      MsgPreVoteResp, MsgStorageAppendResp, MsgStorageApplyResp])"

text \<open>Go's \<open>arr[i]\<close> on a slice of booleans: the index is checked against both bounds.\<close>

definition index_bool :: "bool list \<Rightarrow> int \<Rightarrow> fault + bool" where
  "index_bool arr i =
     (if 0 \<le> i \<and> i < int (length arr) then Inr (arr ! nat i) else Inl IndexOutOfRange)"

text \<open>\<open>i < len(arr) && arr[i]\<close>: the right operand is evaluated only when the left holds.\<close>

definition isMsgInArray :: "MessageType \<Rightarrow> bool list \<Rightarrow> fault + bool" where
  "isMsgInArray msgt arr =
     (let i = sint msgt in
      if i < int (length arr) then index_bool arr i else Inr False)"

definition IsLocalMsg :: "(MsgName \<Rightarrow> MessageType) \<Rightarrow> MessageType \<Rightarrow> fault + bool" where
  "IsLocalMsg raftpb msgt = isMsgInArray msgt (isLocalMsg raftpb)"

definition IsResponseMsg :: "(MsgName \<Rightarrow> MessageType) \<Rightarrow> MessageType \<Rightarrow> fault + bool" where
  "IsResponseMsg raftpb msgt = isMsgInArray msgt (isResponseMsg raftpb)"

definition voteRespMsgType ::
  "(MsgName \<Rightarrow> MessageType) \<Rightarrow> MessageType \<Rightarrow> fault + MessageType" where
  "voteRespMsgType raftpb msgt =
     (if msgt = raftpb MsgVote then Inr (raftpb MsgVoteResp)
      else if msgt = raftpb MsgPreVote then Inr (raftpb MsgPreVoteResp)
      else Inl (Panic ''not a vote message''))"

text \<open>
  The numbering of etcd's \<open>raft.proto\<close>, as one instance of the parameter \<open>raftpb\<close>.
\<close>

fun raft_proto :: "MsgName \<Rightarrow> MessageType" where
  "raft_proto MsgHup = 0"
| "raft_proto MsgBeat = 1"
| "raft_proto MsgProp = 2"
| "raft_proto MsgApp = 3"
| "raft_proto MsgAppResp = 4"
| "raft_proto MsgVote = 5"
| "raft_proto MsgVoteResp = 6"
| "raft_proto MsgSnap = 7"
| "raft_proto MsgHeartbeat = 8"
| "raft_proto MsgHeartbeatResp = 9"
| "raft_proto MsgUnreachable = 10"
| "raft_proto MsgSnapStatus = 11"
| "raft_proto MsgCheckQuorum = 12"
| "raft_proto MsgTransferLeader = 13"
| "raft_proto MsgTimeoutNow = 14"
| "raft_proto MsgReadIndex = 15"
| "raft_proto MsgReadIndexResp = 16"
| "raft_proto MsgPreVote = 17"
| "raft_proto MsgPreVoteResp = 18"
| "raft_proto MsgStorageAppend = 19"
| "raft_proto MsgStorageAppendResp = 20"
| "raft_proto MsgStorageApply = 21"
| "raft_proto MsgStorageApplyResp = 22"
| "raft_proto MsgForgetLeader = 23"

section \<open>Slices and \<open>extend\<close> (util.go)\<close>

definition go_cap :: "slice \<Rightarrow> nat" where
  "go_cap s = length (s_arr s)"

definition elems :: "slice \<Rightarrow> Entry list" where
  "elems s = take (s_len s) (s_arr s)"

definition wf_slice :: "slice \<Rightarrow> bool" where
  "wf_slice s = (s_len s \<le> length (s_arr s))"

definition zero_Entry :: Entry where
  "zero_Entry = \<lparr>Term = 0, Index = 0, Type = EntryNormal, Data = None\<rparr>"

text \<open>\<open>make([]raftpb.Entry, n, c)\<close>: a fresh array of \<open>c\<close> zero entries.\<close>

definition go_make :: "nat \<Rightarrow> nat \<Rightarrow> slice" where
  "go_make n c = \<lparr>s_arr = replicate c zero_Entry, s_len = n\<rparr>"

text \<open>\<open>copy(dst, src)\<close> writes the first \<open>min(len(dst), len(src))\<close> elements of \<open>src\<close>.\<close>

definition go_copy :: "slice \<Rightarrow> slice \<Rightarrow> slice" where
  "go_copy dst src =
     (let n = min (s_len dst) (s_len src) in
      dst\<lparr>s_arr := take n (elems src) @ drop n (s_arr dst)\<rparr>)"

text \<open>
  \<open>copy(buf[k:], src)\<close>: the slice \<open>buf[k:]\<close> shares the array of \<open>buf\<close>, so the copy is
  seen through \<open>buf\<close>.
\<close>

definition go_copy_from :: "slice \<Rightarrow> nat \<Rightarrow> slice \<Rightarrow> slice" where
  "go_copy_from buf k src =
     (let tail = \<lparr>s_arr = drop k (s_arr buf), s_len = s_len buf - k\<rparr>;
          tail' = go_copy tail src
      in buf\<lparr>s_arr := take k (s_arr buf) @ s_arr tail'\<rparr>)"

text \<open>
  The built-in \<open>append(dst, vals...)\<close> when the capacity suffices: it writes in place.
  The elements of \<open>vals\<close> are read before any cell is written, as the built-in does
  when \<open>vals\<close> lies in the array of \<open>dst\<close>.
\<close>

definition append_in_place :: "slice \<Rightarrow> slice \<Rightarrow> slice" where
  "append_in_place dst vals =
     (let need = s_len dst + s_len vals in
      \<lparr>s_arr = take (s_len dst) (s_arr dst) @ elems vals @ drop need (s_arr dst),
       s_len = need\<rparr>)"

text \<open>
  The built-in \<open>append\<close> in general: when the capacity does not suffice it moves the
  elements to a new array, whose capacity the run-time system chooses (\<open>grow\<close>, from
  the old capacity and the length needed).
\<close>

definition go_append :: "(nat \<Rightarrow> nat \<Rightarrow> nat) \<Rightarrow> slice \<Rightarrow> slice \<Rightarrow> slice" where
  "go_append grow dst vals =
     (let need = s_len dst + s_len vals in
      if need \<le> go_cap dst then append_in_place dst vals
      else \<lparr>s_arr = elems dst @ elems vals @ replicate (grow (go_cap dst) need - need) zero_Entry,
            s_len = need\<rparr>)"

definition extend :: "slice \<Rightarrow> slice \<Rightarrow> slice" where
  "extend dst vals =
     (let need = s_len dst + s_len vals in
      if need \<le> go_cap dst then append_in_place dst vals
      else
        (let buf = go_make need need;
             buf = go_copy buf dst;
             buf = go_copy_from buf (s_len dst) vals
         in buf))"

section \<open>Describing entries (util.go)\<close>

text \<open>Calling a function value: calling nil is a run-time panic.\<close>

definition call_formatter :: "EntryFormatter \<Rightarrow> byte list option \<Rightarrow> fault + string" where
  "call_formatter f data = (case f of None \<Rightarrow> Inl NilDereference | Some g \<Rightarrow> Inr (g data))"

text \<open>The renderer that \<open>DescribeEntry\<close> installs when it is given nil.\<close>

definition default_formatter :: "'c describe_env \<Rightarrow> byte list option \<Rightarrow> string" where
  "default_formatter env = (\<lambda>data. fmt_q env data)"

definition DescribeEntry :: "'c describe_env \<Rightarrow> Entry \<Rightarrow> EntryFormatter \<Rightarrow> fault + string" where
  "DescribeEntry env e f =
     (let f = (case f of None \<Rightarrow> Some (default_formatter env) | Some g \<Rightarrow> Some g);
          formatConfChange = (\<lambda>cc. ConfChangesToString env cc);
          formatted =
            (case Type e of
               EntryNormal \<Rightarrow> call_formatter f (Data e)
             | EntryConfChange \<Rightarrow>
                 (case Unmarshal_ConfChange env (Data e) of
                    Inl err \<Rightarrow> Inr err
                  | Inr cc \<Rightarrow> Inr (formatConfChange cc))
             | EntryConfChangeV2 \<Rightarrow>
                 (case Unmarshal_ConfChangeV2 env (Data e) of
                    Inl err \<Rightarrow> Inr err
                  | Inr cc \<Rightarrow> Inr (formatConfChange cc))
             | EntryTypeOther n \<Rightarrow> Inr [])
      in case formatted of
           Inl flt \<Rightarrow> Inl flt
         | Inr formatted \<Rightarrow>
             (let formatted = (if formatted \<noteq> [] then '' '' @ formatted else formatted)
              in Inr (fmt_d env (Term e) @ ''/'' @ fmt_d env (Index e) @ '' '' @
                      EntryType_String env (Type e) @ formatted)))"

fun DescribeEntries :: "'c describe_env \<Rightarrow> Entry list \<Rightarrow> EntryFormatter \<Rightarrow> fault + string" where
  "DescribeEntries env [] f = Inr []"
| "DescribeEntries env (e # ents) f =
     (case DescribeEntry env e f of
        Inl flt \<Rightarrow> Inl flt
      | Inr s \<Rightarrow>
          (case DescribeEntries env ents f of
             Inl flt \<Rightarrow> Inl flt
           | Inr rest \<Rightarrow> Inr (s @ [CHR 0x0A] @ rest)))"

section \<open>The consensus core\<close>

text \<open>
  raft.go, which holds the state machine that raft2.go drives, is not among the sources
  at hand. This section models, from the spec, the part of it that an election and the
  first round of replication run through; the message kinds that this part never sends
  (heartbeats, snapshots, read index, leader transfer, the storage pipeline) are ignored
  by the step function, and joint configurations, learners, the in-flight window and the
  size cap of an append are left out.
\<close>

text \<open>
  Modelled from the spec: the two kinds of campaign of section 4.1, the non-binding
  pre-vote round and the real election.
\<close>

datatype CampaignType = campaignPreElection | campaignElection

text \<open>Modelled from the spec: the result of \<open>tallyVotes\<close> (section 4.3).\<close>

datatype VoteResult = VotePending | VoteLost | VoteWon

text \<open>
  Modelled from the spec: the error that \<open>Step\<close> returns for a proposal submitted to
  a node that is not the leader (section 7).
\<close>

datatype error = ErrProposalDropped

text \<open>
  Modelled from the spec: the constant \<open>None\<close> of raft.go, the identifier that stands
  for "no node" (no leader known, no vote cast); node identifiers start at 1.
\<close>

definition None_id :: uint64 where
  "None_id = 0"

text \<open>
  Modelled from the spec: the constant \<open>noLimit\<close> of raft.go, which \<open>newTestConfig\<close>
  gives as the size cap of a message: the largest \<open>uint64\<close>.
\<close>

definition noLimit :: uint64 where
  "noLimit = - 1"

text \<open>A struct literal \<open>raftpb.Message{Type: ty, To: to}\<close>: the other fields are zero.\<close>

definition new_Message :: "MsgName \<Rightarrow> uint64 \<Rightarrow> Message" where
  "new_Message ty to =
     \<lparr>mType = ty, mTo = to, mFrom = 0, mTerm = 0, mLogTerm = 0, mIndex = 0, mEntries = [],
      mCommit = 0, mReject = False, mRejectHint = 0\<rparr>"

subsection \<open>The log\<close>

text \<open>
  Modelled from the spec: \<open>lastIndex\<close> and \<open>lastTerm\<close> of the log (section 4.2). The index
  and term of the last entry; the empty log ends at index 0 with term 0.
\<close>

definition lastIndex :: "raft \<Rightarrow> uint64" where
  "lastIndex r = (case raftLog r of [] \<Rightarrow> 0 | e # es \<Rightarrow> Index (last (e # es)))"

text \<open>Modelled from the spec: \<open>lastTerm\<close>, the term of the last entry of the log.\<close>

definition lastTerm :: "raft \<Rightarrow> uint64" where
  "lastTerm r = (case raftLog r of [] \<Rightarrow> 0 | e # es \<Rightarrow> Term (last (e # es)))"

text \<open>
  Modelled from the spec: \<open>term(index)\<close> of section 4.2, an error (\<open>None\<close>) outside the
  log. Index 0, the position before the first entry, has term 0.
\<close>

definition term_at :: "raft \<Rightarrow> uint64 \<Rightarrow> uint64 option" where
  "term_at r i =
     (if i = 0 then Some 0
      else (case find (\<lambda>e. Index e = i) (raftLog r) of None \<Rightarrow> None | Some e \<Rightarrow> Some (Term e)))"

text \<open>
  Modelled from the spec: whether the log contains an entry at the stated (index, term),
  the test of append handling (section 4.1).
\<close>

definition matchTerm :: "raft \<Rightarrow> uint64 \<Rightarrow> uint64 \<Rightarrow> bool" where
  "matchTerm r i t = (term_at r i = Some t)"

text \<open>
  Modelled from the spec: the log comparison of a vote (section 4.1): the requester's
  last (term, index) is at least the node's own.
\<close>

definition isUpToDate :: "raft \<Rightarrow> uint64 \<Rightarrow> uint64 \<Rightarrow> bool" where
  "isUpToDate r lasti t = (t > lastTerm r \<or> (t = lastTerm r \<and> lasti \<ge> lastIndex r))"

subsection \<open>Queueing messages\<close>

text \<open>
  Modelled from the spec: the election kinds of section 6 that are requests for a vote
  or responses to one.
\<close>

definition is_vote_kind :: "MsgName \<Rightarrow> bool" where
  "is_vote_kind k = (k = MsgVote \<or> k = MsgVoteResp \<or> k = MsgPreVote \<or> k = MsgPreVoteResp)"

text \<open>
  Modelled from the spec: \<open>raft.send\<close> (raft.go is not among the sources). The node
  signs the message with its identifier; a message of the election carries the term it
  was given, any other the node's term. The node must not tell its peers about state it
  has not made durable (section 4.5): the responses that acknowledge a vote or an append
  wait in \<open>msgsAfterAppend\<close>, the field that raft2.go drains after the append, and every
  other message goes to \<open>msgs\<close>.
\<close>

definition send_msg :: "raft \<Rightarrow> Message \<Rightarrow> raft" where
  "send_msg r m =
     (let m = (if mFrom m = None_id then m\<lparr>mFrom := rid r\<rparr> else m);
          m = (if is_vote_kind (mType m) \<or> mType m = MsgProp \<or> mType m = MsgReadIndex then m
               else m\<lparr>mTerm := rTerm r\<rparr>)
      in if mType m = MsgAppResp \<or> mType m = MsgVoteResp \<or> mType m = MsgPreVoteResp
         then r\<lparr>msgsAfterAppend := msgsAfterAppend r @ [m]\<rparr>
         else r\<lparr>msgs := msgs r @ [m]\<rparr>)"

subsection \<open>Votes and quorum\<close>

text \<open>
  Modelled from the spec: the quorum of the glossary, a strict majority of the voters.
\<close>

definition quorum :: "raft \<Rightarrow> nat" where
  "quorum r = length (voters r) div 2 + 1"

text \<open>
  Modelled from the spec: \<open>tallyVotes\<close> of section 4.3: won once a strict majority has
  granted; lost on a quorum of rejections (section 4.1); pending otherwise.
\<close>

definition tallyVotes :: "raft \<Rightarrow> VoteResult" where
  "tallyVotes r =
     (let granted = length (filter (\<lambda>v. votes r v = Some True) (voters r));
          rejected = length (filter (\<lambda>v. votes r v = Some False) (voters r))
      in if quorum r \<le> granted then VoteWon
         else if quorum r \<le> rejected then VoteLost
         else VotePending)"

text \<open>
  Modelled from the spec: recording a vote response. The first answer of a voter counts;
  a duplicate of it changes nothing (messages may be duplicated, section 1).
\<close>

definition poll :: "raft \<Rightarrow> uint64 \<Rightarrow> bool \<Rightarrow> raft" where
  "poll r v granted =
     (case votes r v of None \<Rightarrow> r\<lparr>votes := (votes r)(v \<mapsto> granted)\<rparr> | Some old \<Rightarrow> r)"

subsection \<open>Role transitions\<close>

text \<open>
  Modelled from the spec: \<open>raft.reset\<close>, which \<open>entsWithConfig\<close> calls. The vote record
  is reset whenever the term changes (section 3, invariant 1); the leader, the votes
  received and the progress of every voter start afresh.
\<close>

definition reset :: "raft \<Rightarrow> uint64 \<Rightarrow> raft" where
  "reset r t =
     (let r = (if rTerm r \<noteq> t then r\<lparr>rTerm := t, rVote := None_id\<rparr> else r)
      in r\<lparr>rlead := None_id, electionElapsed := 0, votes := Map.empty,
           prs := (\<lambda>v. if v \<in> set (voters r)
                        then Some \<lparr>pMatch = (if v = rid r then lastIndex r else 0),
                                   pNext = lastIndex r + 1, pState = StateProbe, pPaused = False\<rparr>
                        else None)\<rparr>)"

text \<open>
  Modelled from the spec: stepping down (section 4.1): Follower at the given term, with
  the given leader.
\<close>

definition becomeFollower :: "raft \<Rightarrow> uint64 \<Rightarrow> uint64 \<Rightarrow> raft" where
  "becomeFollower r t lead = (reset r t)\<lparr>rlead := lead, rstate := StateFollower\<rparr>"

text \<open>
  Modelled from the spec: becoming PreCandidate (section 4.1): the term is not
  incremented, since a PreCandidate campaigns at term + 1 without committing to it.
\<close>

definition becomePreCandidate :: "raft \<Rightarrow> raft" where
  "becomePreCandidate r = r\<lparr>votes := Map.empty, rlead := None_id, rstate := StatePreCandidate\<rparr>"

text \<open>
  Modelled from the spec: becoming Candidate (section 4.1): the term is incremented and
  the node votes for itself.
\<close>

definition becomeCandidate :: "raft \<Rightarrow> raft" where
  "becomeCandidate r = (reset r (rTerm r + 1))\<lparr>rVote := rid r, rstate := StateCandidate\<rparr>"

text \<open>
  Modelled from the spec: a leader accepting entries (section 3, lifecycle): each gets the
  current term and the next free index. The leader acknowledges its own append with a
  response addressed to itself, which waits in \<open>msgsAfterAppend\<close> like any other.
\<close>

fun stamp :: "uint64 \<Rightarrow> uint64 \<Rightarrow> Entry list \<Rightarrow> Entry list" where
  "stamp t i [] = []"
| "stamp t i (e # es) = e\<lparr>Term := t, Index := i\<rparr> # stamp t (i + 1) es"

text \<open>
  Modelled from the spec: \<open>appendEntry\<close>, the leader's append to its own log, followed
  by its acknowledgement to itself.
\<close>

definition appendEntry :: "raft \<Rightarrow> Entry list \<Rightarrow> raft" where
  "appendEntry r es =
     (let r = r\<lparr>raftLog := raftLog r @ stamp (rTerm r) (lastIndex r + 1) es\<rparr>
      in send_msg r ((new_Message MsgAppResp (rid r))\<lparr>mIndex := lastIndex r\<rparr>))"

text \<open>
  Modelled from the spec: becoming Leader (section 4.1): the progress of all peers is
  initialised and a no-op entry is appended at the new term.
\<close>

definition becomeLeader :: "raft \<Rightarrow> raft" where
  "becomeLeader r =
     (let r = (reset r (rTerm r))\<lparr>rlead := rid r, rstate := StateLeader\<rparr>;
          r = (case prs r (rid r) of
                 None \<Rightarrow> r
               | Some pr \<Rightarrow> r\<lparr>prs := (prs r)(rid r \<mapsto> pr\<lparr>pState := StateReplicate\<rparr>)\<rparr>)
      in appendEntry r [zero_Entry])"

subsection \<open>Replication\<close>

text \<open>
  Modelled from the spec: when sending to a peer is paused (section 4.4): while a probe
  awaits its acknowledgement, and during a snapshot.
\<close>

definition isPaused :: "Progress \<Rightarrow> bool" where
  "isPaused pr =
     (case pState pr of StateProbe \<Rightarrow> pPaused pr | StateReplicate \<Rightarrow> False
      | StateSnapshot \<Rightarrow> True)"

text \<open>
  Modelled from the spec: sending an append to one peer (section 4.1, replication). The
  message carries the entries from the peer's next index on, the (index, term) before
  them and the commit index. In Probe mode one append is sent and further sends are
  withheld; in Replicate mode the next index advances optimistically.
\<close>

definition sendAppend :: "raft \<Rightarrow> uint64 \<Rightarrow> raft" where
  "sendAppend r to =
     (case prs r to of
        None \<Rightarrow> r
      | Some pr \<Rightarrow>
          if isPaused pr then r
          else
            (let prevIndex = pNext pr - 1;
                 es = filter (\<lambda>e. pNext pr \<le> Index e) (raftLog r);
                 m = (new_Message MsgApp to)
                       \<lparr>mIndex := prevIndex,
                        mLogTerm := (case term_at r prevIndex of None \<Rightarrow> 0 | Some t \<Rightarrow> t),
                        mEntries := es, mCommit := committed r\<rparr>;
                 pr = (case es of
                         [] \<Rightarrow> pr
                       | e # es' \<Rightarrow>
                           (case pState pr of
                              StateReplicate \<Rightarrow> pr\<lparr>pNext := Index (last es) + 1\<rparr>
                            | StateProbe \<Rightarrow> pr\<lparr>pPaused := True\<rparr>
                            | StateSnapshot \<Rightarrow> pr))
             in send_msg (r\<lparr>prs := (prs r)(to \<mapsto> pr)\<rparr>) m))"

text \<open>Modelled from the spec: the append fan-out to every other voter (section 4.1).\<close>

definition bcastAppend :: "raft \<Rightarrow> raft" where
  "bcastAppend r = fold (\<lambda>v r. if v = rid r then r else sendAppend r v) (voters r) r"

text \<open>
  Modelled from the spec: \<open>committedIndex\<close> of section 4.3, the highest index
  acknowledged by a majority of the voters.
\<close>

definition committedIndex :: "raft \<Rightarrow> uint64" where
  "committedIndex r =
     (let acked = map (\<lambda>v. case prs r v of None \<Rightarrow> 0 | Some pr \<Rightarrow> pMatch pr) (voters r);
          safe = filter (\<lambda>i. quorum r \<le> length (filter (\<lambda>j. i \<le> j) acked)) acked
      in fold max safe 0)"

text \<open>
  Modelled from the spec: commit advancement (section 3, invariant 6, and
  \<open>maybeCommit\<close> of section 4.2): the commit index is raised to an index that a quorum
  has acknowledged only if the entry there carries the leader's current term.
\<close>

definition maybeCommit :: "raft \<Rightarrow> raft \<times> bool" where
  "maybeCommit r =
     (let mci = committedIndex r
      in if committed r < mci \<and> term_at r mci = Some (rTerm r)
         then (r\<lparr>committed := mci\<rparr>, True) else (r, False))"

text \<open>
  Modelled from the spec: the first point of term mismatch of section 4.2: the index of
  the first of the given entries that the log does not hold with that term, 0 if none.
\<close>

definition findConflict :: "raft \<Rightarrow> Entry list \<Rightarrow> uint64" where
  "findConflict r es =
     (case find (\<lambda>e. \<not> matchTerm r (Index e) (Term e)) es of None \<Rightarrow> 0 | Some e \<Rightarrow> Index e)"

text \<open>
  Modelled from the spec: append handling (section 4.1). The append is rejected, with
  a hint, if the log has no entry at the stated previous (index, term); otherwise a
  conflicting suffix is truncated (fatal if it is committed), the new entries are
  appended, and the commit index advances to the smaller of the message's commit and the
  last new index. An append below the commit index is answered with the commit index.
\<close>

definition handleAppendEntries :: "raft \<Rightarrow> Message \<Rightarrow> fault + raft" where
  "handleAppendEntries r m =
     (if mIndex m < committed r then
        Inr (send_msg r ((new_Message MsgAppResp (mFrom m))\<lparr>mIndex := committed r\<rparr>))
      else if matchTerm r (mIndex m) (mLogTerm m) then
        (let lastnewi = (case mEntries m of [] \<Rightarrow> mIndex m | e # es \<Rightarrow> Index (last (e # es)));
             ci = findConflict r (mEntries m)
         in if ci \<noteq> 0 \<and> ci \<le> committed r then Inl (Panic ''entry conflicts with committed entry'')
            else
              (let r = (if ci = 0 then r
                        else r\<lparr>raftLog := filter (\<lambda>e. Index e < ci) (raftLog r) @
                                            filter (\<lambda>e. ci \<le> Index e) (mEntries m)\<rparr>);
                   r = (if committed r < min (mCommit m) lastnewi
                        then r\<lparr>committed := min (mCommit m) lastnewi\<rparr> else r)
               in Inr (send_msg r ((new_Message MsgAppResp (mFrom m))\<lparr>mIndex := lastnewi\<rparr>))))
      else
        (let hint = fold max
               (map Index
                  (filter (\<lambda>e. Index e \<le> min (mIndex m) (lastIndex r) \<and> Term e \<le> mLogTerm m)
                     (raftLog r))) 0
         in Inr (send_msg r ((new_Message MsgAppResp (mFrom m))
                   \<lparr>mIndex := mIndex m, mReject := True, mRejectHint := hint\<rparr>))))"

subsection \<open>Campaigning\<close>

text \<open>Modelled from the spec: only a voter of the configuration campaigns.\<close>

definition promotable :: "raft \<Rightarrow> bool" where
  "promotable r = (rid r \<in> set (voters r))"

text \<open>
  Modelled from the spec: starting a campaign (section 4.1): become PreCandidate (the
  pre-vote goes out at term + 1) or Candidate (the term is incremented), then send a vote
  request with the own last (term, index) to every other voter. The node's own vote is a
  response that it addresses to itself.
\<close>

definition campaign :: "raft \<Rightarrow> CampaignType \<Rightarrow> raft" where
  "campaign r t =
     (let r = (case t of campaignPreElection \<Rightarrow> becomePreCandidate r
               | campaignElection \<Rightarrow> becomeCandidate r);
          voteMsg = (case t of campaignPreElection \<Rightarrow> MsgPreVote | campaignElection \<Rightarrow> MsgVote);
          respMsg = (case t of campaignPreElection \<Rightarrow> MsgPreVoteResp
                     | campaignElection \<Rightarrow> MsgVoteResp);
          t' = (case t of campaignPreElection \<Rightarrow> rTerm r + 1 | campaignElection \<Rightarrow> rTerm r)
      in fold (\<lambda>v r.
                 if v = rid r then send_msg r ((new_Message respMsg v)\<lparr>mTerm := t'\<rparr>)
                 else send_msg r ((new_Message voteMsg v)
                        \<lparr>mTerm := t', mIndex := lastIndex r, mLogTerm := lastTerm r\<rparr>))
           (voters r) r)"

text \<open>
  Modelled from the spec: the local election trigger (section 4.1): a Follower,
  PreCandidate or Candidate campaigns; a Leader does not.
\<close>

definition hup :: "raft \<Rightarrow> CampaignType \<Rightarrow> raft" where
  "hup r t =
     (if rstate r = StateLeader then r
      else if \<not> promotable r then r
      else campaign r t)"

text \<open>
  Modelled from the spec: the active leader lease of section 4.1: with check-quorum
  enabled, a leader is known and the election timeout has not elapsed.
\<close>

definition inLease :: "raft \<Rightarrow> bool" where
  "inLease r = (checkQuorum r \<and> rlead r \<noteq> None_id \<and> electionElapsed r < electionTimeout r)"

subsection \<open>The step function\<close>

text \<open>
  Modelled from the spec: the Leader's step. A proposal is appended and fanned out. An
  acknowledgement updates the peer's progress (Probe to Replicate on success, Replicate
  to Probe on a rejection, backing off to the hint), the commit index is recomputed
  after every acknowledgement, and an advance triggers a fan-out with the new value
  (sections 4.1 and 4.4).
\<close>

definition stepLeader :: "raft \<Rightarrow> Message \<Rightarrow> fault + raft \<times> error option" where
  "stepLeader r m =
     (if mType m = MsgProp then Inr (bcastAppend (appendEntry r (mEntries m)), None)
      else if mType m = MsgAppResp then
        (case prs r (mFrom m) of
           None \<Rightarrow> Inr (r, None)
         | Some pr \<Rightarrow>
             if mReject m then
               (let pr = pr\<lparr>pNext := max (min (mIndex m) (mRejectHint m + 1)) (pMatch pr + 1),
                            pState := StateProbe, pPaused := False\<rparr>
                in Inr (sendAppend (r\<lparr>prs := (prs r)(mFrom m \<mapsto> pr)\<rparr>) (mFrom m), None))
             else if pMatch pr < mIndex m then
               (let wasPaused = isPaused pr;
                    pr = pr\<lparr>pMatch := mIndex m, pNext := max (pNext pr) (mIndex m + 1),
                            pPaused := False\<rparr>;
                    pr = (if pState pr = StateProbe
                          then pr\<lparr>pState := StateReplicate, pNext := pMatch pr + 1\<rparr> else pr);
                    r = r\<lparr>prs := (prs r)(mFrom m \<mapsto> pr)\<rparr>
                in case maybeCommit r of
                     (r, True) \<Rightarrow> Inr (bcastAppend r, None)
                   | (r, False) \<Rightarrow>
                       if wasPaused then Inr (sendAppend r (mFrom m), None) else Inr (r, None))
             else Inr (r, None))
      else Inr (r, None))"

text \<open>
  Modelled from the spec: the step of a Candidate or PreCandidate (section 4.1). On a
  quorum of granted votes a PreCandidate starts the real campaign and a Candidate becomes
  Leader and sends the first appends; on a quorum of rejections it reverts to Follower
  and keeps its term. An append from a leader makes it a follower of that leader. A
  proposal is rejected, since the node is not the leader (section 7).
\<close>

definition stepCandidate :: "raft \<Rightarrow> Message \<Rightarrow> fault + raft \<times> error option" where
  "stepCandidate r m =
     (let myVoteRespType =
            (if rstate r = StatePreCandidate then MsgPreVoteResp else MsgVoteResp)
      in if mType m = MsgProp then Inr (r, Some ErrProposalDropped)
         else if mType m = MsgApp then
           (case handleAppendEntries (becomeFollower r (mTerm m) (mFrom m)) m of
              Inl flt \<Rightarrow> Inl flt | Inr r \<Rightarrow> Inr (r, None))
         else if mType m = myVoteRespType then
           (let r = poll r (mFrom m) (\<not> mReject m)
            in case tallyVotes r of
                 VoteWon \<Rightarrow>
                   if rstate r = StatePreCandidate then Inr (campaign r campaignElection, None)
                   else Inr (bcastAppend (becomeLeader r), None)
               | VoteLost \<Rightarrow> Inr (becomeFollower r (rTerm r) None_id, None)
               | VotePending \<Rightarrow> Inr (r, None))
         else Inr (r, None))"

text \<open>
  Modelled from the spec: the Follower's step: an append is handled and its sender is
  recorded as the leader; a proposal is rejected, since the node is not the leader.
\<close>

definition stepFollower :: "raft \<Rightarrow> Message \<Rightarrow> fault + raft \<times> error option" where
  "stepFollower r m =
     (if mType m = MsgProp then Inr (r, Some ErrProposalDropped)
      else if mType m = MsgApp then
        (case handleAppendEntries (r\<lparr>electionElapsed := 0, rlead := mFrom m\<rparr>) m of
           Inl flt \<Rightarrow> Inl flt | Inr r \<Rightarrow> Inr (r, None))
      else Inr (r, None))"

text \<open>
  Modelled from the spec: the second half of \<open>raft.Step\<close>, after the term of the message
  has been dealt with. A vote is granted iff the requester's log is at least as up to
  date, the node has not voted for a different candidate in this term (a pre-vote never
  commits a vote), and the node is not within a leader lease (\<open>lease\<close>); otherwise it is
  rejected (section 4.1). A granted vote is recorded; a granted pre-vote is not.
\<close>

definition Step_dispatch :: "raft \<Rightarrow> Message \<Rightarrow> bool \<Rightarrow> fault + raft \<times> error option" where
  "Step_dispatch r m lease =
     (if mType m = MsgHup then
        Inr (hup r (if preVote r then campaignPreElection else campaignElection), None)
      else if mType m = MsgVote \<or> mType m = MsgPreVote then
        (let respMsg = (if mType m = MsgVote then MsgVoteResp else MsgPreVoteResp);
             canVote = (rVote r = mFrom m \<or> rVote r = None_id \<or> mType m = MsgPreVote)
         in if isUpToDate r (mIndex m) (mLogTerm m) \<and> canVote \<and> \<not> lease then
              (let r = send_msg r ((new_Message respMsg (mFrom m))\<lparr>mTerm := mTerm m\<rparr>);
                   r = (if mType m = MsgVote
                        then r\<lparr>electionElapsed := 0, rVote := mFrom m\<rparr> else r)
               in Inr (r, None))
            else
              Inr (send_msg r ((new_Message respMsg (mFrom m))
                     \<lparr>mTerm := rTerm r, mReject := True\<rparr>), None))
      else
        (case rstate r of
           StateLeader \<Rightarrow> stepLeader r m
         | StateFollower \<Rightarrow> stepFollower r m
         | StateCandidate \<Rightarrow> stepCandidate r m
         | StatePreCandidate \<Rightarrow> stepCandidate r m))"

text \<open>
  Modelled from the spec: \<open>raft.Step\<close>, which raft2.go calls on every delivery. A local
  message has term 0. On a strictly higher term the node steps down to Follower at that
  term and records the sender as leader if the kind is an append or a heartbeat; the
  kinds that do not advance the term are the pre-vote request and the granted pre-vote
  response, and a vote request within the leader lease. A message of a lower term is
  dropped, a stale pre-vote being answered with a rejection (section 7).
\<close>

definition Step :: "raft \<Rightarrow> Message \<Rightarrow> fault + raft \<times> error option" where
  "Step r m =
     (let lease = inLease r
      in if mTerm m = 0 then Step_dispatch r m lease
         else if rTerm r < mTerm m then
           (if (mType m = MsgVote \<or> mType m = MsgPreVote) \<and> lease then Step_dispatch r m lease
            else if mType m = MsgPreVote then Step_dispatch r m lease
            else if mType m = MsgPreVoteResp \<and> \<not> mReject m then Step_dispatch r m lease
            else
              Step_dispatch
                (becomeFollower r (mTerm m)
                   (if mType m = MsgApp \<or> mType m = MsgHeartbeat then mFrom m else None_id))
                m lease)
         else if mTerm m < rTerm r then
           (if mType m = MsgPreVote then
              Inr (send_msg r ((new_Message MsgPreVoteResp (mFrom m))
                     \<lparr>mTerm := rTerm r, mReject := True\<rparr>), None)
            else Inr (r, None))
         else Step_dispatch r m lease)"

subsection \<open>Storage and start\<close>

text \<open>
  Modelled from the spec: \<open>NewMemoryStorage\<close> and its \<open>Append\<close>, which raft2.go calls:
  an empty store, and adding entries at its end.
\<close>

definition NewMemoryStorage :: MemoryStorage where
  "NewMemoryStorage = \<lparr>ms_voters = [], ms_ents = []\<rparr>"

text \<open>Modelled from the spec: \<open>MemoryStorage.Append\<close>, adding entries at the end.\<close>

definition ms_Append :: "MemoryStorage \<Rightarrow> Entry list \<Rightarrow> MemoryStorage" where
  "ms_Append ms es = ms\<lparr>ms_ents := ms_ents ms @ es\<rparr>"

text \<open>
  Modelled from the spec: \<open>newRaft\<close>, which raft2.go calls: a node starts as Follower
  (section 4.1) at term 0 with no vote, and takes its voters and its log from the storage.
\<close>

definition newRaft :: "Config \<Rightarrow> raft" where
  "newRaft c =
     (let r = \<lparr>rid = ID c, rTerm = 0, rVote = None_id, rstate = StateFollower, rlead = None_id,
               raftLog = ms_ents (Storage c), committed = 0, voters = ms_voters (Storage c),
               votes = Map.empty, prs = Map.empty, msgs = [], msgsAfterAppend = [],
               preVote = PreVote c, checkQuorum = CheckQuorum c, electionElapsed = 0,
               electionTimeout = ElectionTick c\<rparr>
      in becomeFollower r (rTerm r) None_id)"

section \<open>The test network (raft2.go)\<close>

text \<open>
  The functions of this section are those of raft2.go. A function that loops until a queue
  is empty takes fuel: \<open>None\<close> means that the fuel ran out, \<open>Some (Inl flt)\<close> that the
  program panicked, \<open>Some (Inr x)\<close> that it returned \<open>x\<close>.
\<close>

definition newTestConfig :: "uint64 \<Rightarrow> int \<Rightarrow> int \<Rightarrow> MemoryStorage \<Rightarrow> Config" where
  "newTestConfig i election heartbeat st =
     \<lparr>ID = i, ElectionTick = election, HeartbeatTick = heartbeat, Storage = st,
      MaxSizePerMsg = noLimit, MaxInflightMsgs = 256, PreVote = False, CheckQuorum = False\<rparr>"

text \<open>The loop of \<open>entsWithConfig\<close>; \<open>i\<close> is the loop index.\<close>

fun append_terms :: "MemoryStorage \<Rightarrow> uint64 \<Rightarrow> uint64 list \<Rightarrow> MemoryStorage" where
  "append_terms st i [] = st"
| "append_terms st i (t # ts) =
     append_terms (ms_Append st [\<lparr>Term = t, Index = i + 1, Type = EntryNormal, Data = None\<rparr>])
       (i + 1) ts"

text \<open>\<open>terms[len(terms)-1]\<close> panics when no term is given.\<close>

definition entsWithConfig :: "(Config \<Rightarrow> Config) option \<Rightarrow> uint64 list \<Rightarrow> fault + raft" where
  "entsWithConfig configFunc terms =
     (let st = append_terms NewMemoryStorage 0 terms;
          cfg = newTestConfig 1 5 1 st;
          cfg = (case configFunc of None \<Rightarrow> cfg | Some f \<Rightarrow> f cfg);
          sm = newRaft cfg
      in case terms of
           [] \<Rightarrow> Inl IndexOutOfRange
         | t # ts \<Rightarrow> Inr (reset sm (last (t # ts))))"

definition preVoteConfig :: "Config \<Rightarrow> Config" where
  "preVoteConfig c = c\<lparr>PreVote := True\<rparr>"

definition idsBySize :: "nat \<Rightarrow> uint64 list" where
  "idsBySize n = map (\<lambda>i. 1 + of_nat i) [0 ..< n]"

definition withPeers :: "uint64 list \<Rightarrow> MemoryStorage \<Rightarrow> MemoryStorage" where
  "withPeers ps ms = ms\<lparr>ms_voters := ps\<rparr>"

definition newTestMemoryStorage :: "(MemoryStorage \<Rightarrow> MemoryStorage) list \<Rightarrow> MemoryStorage" where
  "newTestMemoryStorage opts = fold (\<lambda>opt ms. opt ms) opts NewMemoryStorage"

definition takeMessagesAfterAppend :: "raft \<Rightarrow> Message list \<times> raft" where
  "takeMessagesAfterAppend r = (msgsAfterAppend r, r\<lparr>msgsAfterAppend := []\<rparr>)"

text \<open>\<open>stepOrSend\<close> returns at the first error of \<open>Step\<close>, leaving the later messages.\<close>

fun stepOrSend :: "raft \<Rightarrow> Message list \<Rightarrow> fault + raft \<times> error option" where
  "stepOrSend r [] = Inr (r, None)"
| "stepOrSend r (m # ms) =
     (if mTo m = rid r then
        (case Step r m of
           Inl flt \<Rightarrow> Inl flt
         | Inr (r, Some err) \<Rightarrow> Inr (r, Some err)
         | Inr (r, None) \<Rightarrow> stepOrSend r ms)
      else stepOrSend (r\<lparr>msgs := msgs r @ [m]\<rparr>) ms)"

fun advanceMessagesAfterAppend :: "nat \<Rightarrow> raft \<Rightarrow> (fault + raft) option" where
  "advanceMessagesAfterAppend 0 r = None"
| "advanceMessagesAfterAppend (Suc fuel) r =
     (case takeMessagesAfterAppend r of
        (ms, r) \<Rightarrow>
          if length ms = 0 then Some (Inr r)
          else
            (case stepOrSend r ms of
               Inl flt \<Rightarrow> Some (Inl flt)
             | Inr (r, err) \<Rightarrow> advanceMessagesAfterAppend fuel r))"

definition readMessages :: "nat \<Rightarrow> raft \<Rightarrow> (fault + Message list \<times> raft) option" where
  "readMessages fuel r =
     (case advanceMessagesAfterAppend fuel r of
        None \<Rightarrow> None
      | Some (Inl flt) \<Rightarrow> Some (Inl flt)
      | Some (Inr r) \<Rightarrow> Some (Inr (msgs r, r\<lparr>msgs := []\<rparr>)))"

text \<open>The three methods of the interface, on a node and on the \<open>blackHole\<close>.\<close>

definition sm_Step :: "stateMachine \<Rightarrow> Message \<Rightarrow> fault + stateMachine \<times> error option" where
  "sm_Step p m =
     (case p of
        SM_blackHole \<Rightarrow> Inr (SM_blackHole, None)
      | SM_raft r \<Rightarrow>
          (case Step r m of Inl flt \<Rightarrow> Inl flt | Inr (r, err) \<Rightarrow> Inr (SM_raft r, err)))"

definition sm_advanceMessagesAfterAppend ::
  "nat \<Rightarrow> stateMachine \<Rightarrow> (fault + stateMachine) option" where
  "sm_advanceMessagesAfterAppend fuel p =
     (case p of
        SM_blackHole \<Rightarrow> Some (Inr SM_blackHole)
      | SM_raft r \<Rightarrow>
          (case advanceMessagesAfterAppend fuel r of
             None \<Rightarrow> None
           | Some (Inl flt) \<Rightarrow> Some (Inl flt)
           | Some (Inr r) \<Rightarrow> Some (Inr (SM_raft r))))"

definition sm_readMessages ::
  "nat \<Rightarrow> stateMachine \<Rightarrow> (fault + Message list \<times> stateMachine) option" where
  "sm_readMessages fuel p =
     (case p of
        SM_blackHole \<Rightarrow> Some (Inr ([], SM_blackHole))
      | SM_raft r \<Rightarrow>
          (case readMessages fuel r of
             None \<Rightarrow> None
           | Some (Inl flt) \<Rightarrow> Some (Inl flt)
           | Some (Inr (ms, r)) \<Rightarrow> Some (Inr (ms, SM_raft r))))"

text \<open>
  The loop of \<open>newNetworkWithConfigInit\<close> over the peers and their addresses. A nil peer
  becomes a new node with the address as its identifier and all addresses as its
  voters; any other peer is registered under the address as it is.
\<close>

fun init_peers ::
  "(Config \<Rightarrow> Config) option \<Rightarrow> uint64 list \<Rightarrow> uint64 list \<Rightarrow> stateMachine option list \<Rightarrow>
   (uint64 \<Rightarrow> stateMachine option) \<times> (uint64 \<Rightarrow> MemoryStorage option) \<Rightarrow>
   (uint64 \<Rightarrow> stateMachine option) \<times> (uint64 \<Rightarrow> MemoryStorage option)" where
  "init_peers configFunc peerAddrs (i # ids) (p # ps) (npeers, nstorage) =
     (case p of
        None \<Rightarrow>
          (let st = newTestMemoryStorage [withPeers peerAddrs];
               cfg = newTestConfig i 10 1 st;
               cfg = (case configFunc of None \<Rightarrow> cfg | Some f \<Rightarrow> f cfg);
               sm = newRaft cfg
           in init_peers configFunc peerAddrs ids ps
                (npeers(i \<mapsto> SM_raft sm), nstorage(i \<mapsto> st)))
      | Some q \<Rightarrow> init_peers configFunc peerAddrs ids ps (npeers(i \<mapsto> q), nstorage))"
| "init_peers configFunc peerAddrs ids ps acc = acc"

definition newNetworkWithConfigInit ::
  "(Config \<Rightarrow> Config) option \<Rightarrow> stateMachine option list \<Rightarrow> network" where
  "newNetworkWithConfigInit configFunc ps =
     (let size = length ps;
          peerAddrs = idsBySize size
      in case init_peers configFunc peerAddrs peerAddrs ps (Map.empty, Map.empty) of
           (npeers, nstorage) \<Rightarrow>
             \<lparr>peers = npeers, storage = nstorage, dropm64 = Map.empty, ignorem = Map.empty,
              msgHook = None\<rparr>)"

text \<open>
  \<open>network.filter\<close>. The values that \<open>rand.Uint64()\<close> returns are the sequence \<open>rnd\<close>, of
  which \<open>pos\<close> have been drawn; the function returns the messages kept and the new \<open>pos\<close>.
\<close>

fun filter_net ::
  "network \<Rightarrow> (nat \<Rightarrow> uint64) \<Rightarrow> nat \<Rightarrow> Message list \<Rightarrow> fault + Message list \<times> nat" where
  "filter_net nw rnd pos [] = Inr ([], pos)"
| "filter_net nw rnd pos (m # ms) =
     (if (case ignorem nw (mType m) of None \<Rightarrow> False | Some b \<Rightarrow> b) then filter_net nw rnd pos ms
      else if mType m = MsgHup then Inl (Panic ''unexpected msgHup'')
      else
        (let perc64 = (case dropm64 nw (mFrom m, mTo m) of None \<Rightarrow> 0 | Some x \<Rightarrow> x);
             n = rnd pos
         in if n < perc64 then filter_net nw rnd (Suc pos) ms
            else if (case msgHook nw of None \<Rightarrow> False | Some h \<Rightarrow> \<not> h m)
            then filter_net nw rnd (Suc pos) ms
            else
              (case filter_net nw rnd (Suc pos) ms of
                 Inl flt \<Rightarrow> Inl flt
               | Inr (mm, pos') \<Rightarrow> Inr (m # mm, pos'))))"

text \<open>
  \<open>network.send\<close>. A message to an address with no peer calls \<open>Step\<close> on a nil interface.
  The error that \<open>Step\<close> returns is discarded.
\<close>

fun send ::
  "nat \<Rightarrow> (nat \<Rightarrow> uint64) \<Rightarrow> nat \<Rightarrow> network \<Rightarrow> Message list \<Rightarrow> (fault + network) option" where
  "send fuel rnd pos nw [] = Some (Inr nw)"
| "send 0 rnd pos nw (m # ms) = None"
| "send (Suc fuel) rnd pos nw (m # ms) =
     (case peers nw (mTo m) of
        None \<Rightarrow> Some (Inl NilDereference)
      | Some p \<Rightarrow>
          (case sm_Step p m of
             Inl flt \<Rightarrow> Some (Inl flt)
           | Inr (p, err) \<Rightarrow>
               (case sm_advanceMessagesAfterAppend fuel p of
                  None \<Rightarrow> None
                | Some (Inl flt) \<Rightarrow> Some (Inl flt)
                | Some (Inr p) \<Rightarrow>
                    (case sm_readMessages fuel p of
                       None \<Rightarrow> None
                     | Some (Inl flt) \<Rightarrow> Some (Inl flt)
                     | Some (Inr (out, p)) \<Rightarrow>
                         (case filter_net nw rnd pos out of
                            Inl flt \<Rightarrow> Some (Inl flt)
                          | Inr (kept, pos') \<Rightarrow>
                              send fuel rnd pos' (nw\<lparr>peers := (peers nw)(mTo m \<mapsto> p)\<rparr>)
                                (ms @ kept))))))"

text \<open>
  The body of the loop of \<open>testLeaderElection2\<close>: the message that it sends, and what it
  then reads of the peer at address 1, the state and the term of the node.
\<close>

definition hup_msg :: Message where
  "hup_msg = (new_Message MsgHup 1)\<lparr>mFrom := 1\<rparr>"

definition outcome :: "(fault + network) option \<Rightarrow> (StateType \<times> uint64) option" where
  "outcome res =
     (case res of
        None \<Rightarrow> None
      | Some (Inl flt) \<Rightarrow> None
      | Some (Inr nw) \<Rightarrow>
          (case peers nw 1 of
             None \<Rightarrow> None
           | Some SM_blackHole \<Rightarrow> None
           | Some (SM_raft sm) \<Rightarrow> Some (rstate sm, rTerm sm)))"

text \<open>Sample entries and a sample size function, for instances of the theorems.\<close>

definition sample_entry :: "uint64 \<Rightarrow> Entry" where
  "sample_entry i = \<lparr>Term = 1, Index = i, Type = EntryNormal, Data = None\<rparr>"

definition sample_sizes :: "Entry \<Rightarrow> go_int" where
  "sample_sizes e = (if Index e = 1 then 20 else 5)"







text \<open>Two entries with the same payload and nothing else in common.\<close>

definition payload_entry_a :: Entry where
  "payload_entry_a = \<lparr>Term = 1, Index = 1, Type = EntryNormal, Data = Some [1, 2, 3]\<rparr>"

definition payload_entry_b :: Entry where
  "payload_entry_b = \<lparr>Term = 7, Index = 9, Type = EntryConfChange, Data = Some [1, 2, 3]\<rparr>"

section \<open>Predicates of the proofs\<close>




section \<open>Properties of the size functions\<close>

lemma total_size_Nil [simp]: "total_size Size [] = 0"
  by (simp add: total_size_def)

lemma total_size_append [simp]:
  "total_size Size (xs @ ys) = total_size Size xs + total_size Size ys"
  by (simp add: total_size_def)

lemma total_size_Cons [simp]:
  "total_size Size (x # xs) = unat (Size x) + total_size Size xs"
  by (simp add: total_size_def)

lemma total_size_take_Suc:
  "limit < length ents \<Longrightarrow>
   total_size Size (take (Suc limit) ents) = total_size Size (take limit ents) + unat (Size (ents ! limit))"
  by (simp add: take_Suc_conv_app_nth)

lemma total_size_take_le: "total_size Size (take n ents) \<le> total_size Size ents"
proof -
  have "total_size Size ents = total_size Size (take n ents) + total_size Size (drop n ents)"
    by (metis append_take_drop_id total_size_append)
  then show ?thesis by simp
qed

lemma unat_plus_no_wrap:
  assumes "unat sz + unat x < 2 ^ 64"
  shows "unat ((sz :: 64 word) + x) = unat sz + unat x"
  using assms by (simp add: unat_add_lem [THEN iffD1])

text \<open>
  The invariant of the loop: on entry \<open>sz\<close> is the total of the first \<open>limit\<close> entries,
  and that total is within the cap unless \<open>limit\<close> is 1.
\<close>

lemma limitSize_loop_inv:
  "total_size Size ents < 2 ^ 64 \<Longrightarrow> 0 < limit \<Longrightarrow> limit \<le> length ents \<Longrightarrow>
   unat sz = total_size Size (take limit ents) \<Longrightarrow>
   limit = 1 \<or> total_size Size (take limit ents) \<le> unat maxSize \<Longrightarrow>
   \<exists>n. 0 < n \<and> n \<le> length ents \<and> limitSize_loop Size ents maxSize sz limit = take n ents \<and>
       (n = 1 \<or> total_size Size (take n ents) \<le> unat maxSize)"
proof (induction Size ents maxSize sz limit rule: limitSize_loop.induct)
  case (1 Size ents maxSize sz limit)
  show ?case
  proof (cases "limit < length ents")
    case False
    with "1.prems" have "limit = length ents" by simp
    with "1.prems" show ?thesis
      by (subst limitSize_loop.simps) auto
  next
    case True
    let ?sz' = "sz + Size (ents ! limit)"
    have tk: "total_size Size (take (Suc limit) ents) = unat sz + unat (Size (ents ! limit))"
      using True "1.prems"(4) by (simp add: total_size_take_Suc)
    have "total_size Size (take (Suc limit) ents) < 2 ^ 64"
      using total_size_take_le [of Size "Suc limit" ents] "1.prems"(1) by simp
    then have u: "unat ?sz' = total_size Size (take (Suc limit) ents)"
      using tk by (simp add: unat_plus_no_wrap)
    show ?thesis
    proof (cases "?sz' > maxSize")
      case gt: True
      have "limitSize_loop Size ents maxSize sz limit = take limit ents"
        using True gt by (subst limitSize_loop.simps) (simp add: Let_def)
      with "1.prems" True show ?thesis by (intro exI [of _ limit]) auto
    next
      case le: False
      then have "unat ?sz' \<le> unat maxSize" by (simp add: word_le_nat_alt not_less)
      then have cap: "total_size Size (take (Suc limit) ents) \<le> unat maxSize" using u by simp
      have "\<exists>n. 0 < n \<and> n \<le> length ents \<and>
              limitSize_loop Size ents maxSize ?sz' (Suc limit) = take n ents \<and>
              (n = 1 \<or> total_size Size (take n ents) \<le> unat maxSize)"
        using "1.IH" [OF True refl le] "1.prems"(1) True u cap by simp
      moreover have "limitSize_loop Size ents maxSize sz limit =
                     limitSize_loop Size ents maxSize ?sz' (Suc limit)"
        using True le by (subst limitSize_loop.simps) (simp add: Let_def)
      ultimately show ?thesis by simp
    qed
  qed
qed

lemma limitSize_general:
  assumes "ents \<noteq> []" "total_size Size ents < 2 ^ 64"
  shows "limitSize Size ents maxSize \<noteq> [] \<and> prefix (limitSize Size ents maxSize) ents \<and>
         (limitSize Size ents maxSize = [hd ents] \<or>
          total_size Size (limitSize Size ents maxSize) \<le> unat maxSize)"
proof -
  from assms(1) obtain e es where ents: "ents = e # es" by (cases ents) auto
  have "\<exists>n. 0 < n \<and> n \<le> length ents \<and>
          limitSize_loop Size ents maxSize (Size (ents ! 0)) 1 = take n ents \<and>
          (n = 1 \<or> total_size Size (take n ents) \<le> unat maxSize)"
    using assms(2) by (intro limitSize_loop_inv) (auto simp: ents)
  then obtain n where n: "0 < n" "n \<le> length ents"
      "limitSize Size ents maxSize = take n ents"
      "n = 1 \<or> total_size Size (take n ents) \<le> unat maxSize"
    using assms(1) by (auto simp: limitSize_def)
  have "take n ents \<noteq> []" using n(1) assms(1) by simp
  moreover have "prefix (take n ents) ents" by (rule take_is_prefix)
  moreover have "take n ents = [hd ents] \<or> total_size Size (take n ents) \<le> unat maxSize"
    using n(4) by (auto simp: ents)
  ultimately show ?thesis using n(3) by simp
qed

lemma limitSize_three_within:
  "map Size [a, b, c] = [5, 5, 5] \<Longrightarrow> limitSize Size [a, b, c] 12 = [a, b]"
  by (simp add: limitSize_def Let_def)

lemma limitSize_three_oversized:
  "map Size [a, b, c] = [20, 5, 5] \<Longrightarrow> limitSize Size [a, b, c] 12 = [a]"
  by (simp add: limitSize_def Let_def)

text \<open>
  Claim C1. For a non-empty list of entries and any cap \<open>maxSize\<close>, \<open>limitSize\<close> returns
  a non-empty prefix of the list, and the total encoded size of that prefix is at most
  \<open>maxSize\<close> unless the prefix is just the first entry. The sizes are what \<open>Size()\<close>
  returns on a machine: non-negative, with a total that fits the 64 bits of the running
  counter. For sizes 5, 5, 5 and cap 12 the result is the first two entries; for sizes
  20, 5, 5 and cap 12 it is the first entry alone.
\<close>

theorem limitSize_nonempty_prefix_within_cap:
  "(ents \<noteq> [] \<and> total_size Size ents < 2 ^ 64 \<longrightarrow>
      limitSize Size ents maxSize \<noteq> [] \<and> prefix (limitSize Size ents maxSize) ents \<and>
      (limitSize Size ents maxSize = [hd ents] \<or>
       total_size Size (limitSize Size ents maxSize) \<le> unat maxSize)) \<and>
   (map Size' [a, b, c] = [5, 5, 5] \<longrightarrow> limitSize Size' [a, b, c] 12 = [a, b]) \<and>
   (map Size'' [a, b, c] = [20, 5, 5] \<longrightarrow> limitSize Size'' [a, b, c] 12 = [a])"
  using limitSize_general [of ents Size maxSize]
    limitSize_three_within [of Size' a b c] limitSize_three_oversized [of Size'' a b c]
  by blast

theorem limitSize_nonempty_prefix_within_cap_witness:
  "[sample_entry 1, sample_entry 2, sample_entry 3] \<noteq> [] \<and>
   total_size (\<lambda>e. 5) [sample_entry 1, sample_entry 2, sample_entry 3] < 2 ^ 64 \<and>
   prefix (limitSize (\<lambda>e. 5) [sample_entry 1, sample_entry 2, sample_entry 3] 12)
     [sample_entry 1, sample_entry 2, sample_entry 3] \<and>
   total_size (\<lambda>e. 5) (limitSize (\<lambda>e. 5) [sample_entry 1, sample_entry 2, sample_entry 3] 12) \<le> 12 \<and>
   map (\<lambda>e. 5 :: go_int) [sample_entry 1, sample_entry 2, sample_entry 3] = [5, 5, 5] \<and>
   limitSize (\<lambda>e. 5) [sample_entry 1, sample_entry 2, sample_entry 3] 12 =
     [sample_entry 1, sample_entry 2] \<and>
   map sample_sizes [sample_entry 1, sample_entry 2, sample_entry 3] = [20, 5, 5] \<and>
   limitSize sample_sizes [sample_entry 1, sample_entry 2, sample_entry 3] 12 = [sample_entry 1]"
proof -
  let ?es = "[sample_entry 1, sample_entry 2, sample_entry 3]"
  have s1: "map (\<lambda>e. 5 :: go_int) ?es = [5, 5, 5]" by simp
  have s2: "map sample_sizes ?es = [20, 5, 5]" by (simp add: sample_sizes_def sample_entry_def)
  have t: "total_size (\<lambda>e. 5) ?es < 2 ^ 64" by simp
  have two: "limitSize (\<lambda>e. 5) ?es 12 = [sample_entry 1, sample_entry 2]"
    using limitSize_nonempty_prefix_within_cap
      [of ?es "\<lambda>e. 5" 12 "\<lambda>e. 5" "sample_entry 1" "sample_entry 2" "sample_entry 3" sample_sizes] s1
    by blast
  have one: "limitSize sample_sizes ?es 12 = [sample_entry 1]"
    using limitSize_nonempty_prefix_within_cap
      [of ?es "\<lambda>e. 5" 12 "\<lambda>e. 5" "sample_entry 1" "sample_entry 2" "sample_entry 3" sample_sizes] s2
    by blast
  have pre: "prefix (limitSize (\<lambda>e. 5) ?es 12) ?es"
    using limitSize_nonempty_prefix_within_cap
      [of ?es "\<lambda>e. 5" 12 "\<lambda>e. 5" "sample_entry 1" "sample_entry 2" "sample_entry 3" sample_sizes] t
    by blast
  have cap: "total_size (\<lambda>e. 5) (limitSize (\<lambda>e. 5) ?es 12) \<le> 12"
    by (simp add: two)
  show ?thesis using s1 s2 t two one pre cap by simp
qed

lemma payloadsSize_acc: "fold (\<lambda>e s. s + payloadSize e) ents acc = acc + payloadsSize ents"
  unfolding payloadsSize_def
proof (induction ents arbitrary: acc)
  case Nil
  show ?case by simp
next
  case (Cons e es)
  show ?case
    by (simp add: Cons.IH [of "acc + payloadSize e"] Cons.IH [of "payloadSize e"] add.assoc)
qed

lemma payloadsSize_append: "payloadsSize (a @ b) = payloadsSize a + payloadsSize b"
  by (simp add: payloadsSize_def
      payloadsSize_acc [unfolded payloadsSize_def, of b "fold (\<lambda>e s. s + payloadSize e) a 0"])

text \<open>
  Claim C10. Payload accounting is additive over concatenation, and \<open>payloadSize\<close>
  depends on the \<open>Data\<close> field only: two entries with the same payload have the same
  \<open>payloadSize\<close>, whatever their \<open>Term\<close>, \<open>Index\<close> and \<open>Type\<close>, and an entry whose payload
  is nil or empty has size zero. The sums are those of \<open>uint64\<close>.
\<close>

theorem payloadsSize_additive_payload_only:
  "payloadsSize (a @ b) = payloadsSize a + payloadsSize b \<and>
   (Data e1 = Data e2 \<longrightarrow> payloadSize e1 = payloadSize e2) \<and>
   payloadSize \<lparr>Term = t1, Index = i1, Type = ty1, Data = d\<rparr> =
     payloadSize \<lparr>Term = t2, Index = i2, Type = ty2, Data = d\<rparr> \<and>
   payloadSize (e\<lparr>Term := t, Index := i, Type := ty\<rparr>) = payloadSize e \<and>
   payloadSize (e\<lparr>Data := None\<rparr>) = 0 \<and> payloadSize (e\<lparr>Data := Some []\<rparr>) = 0"
  by (simp add: payloadsSize_append payloadSize_def len_bytes_def)

theorem payloadsSize_additive_payload_only_witness:
  "Data payload_entry_a = Data payload_entry_b \<and>
   Term payload_entry_a \<noteq> Term payload_entry_b \<and>
   Index payload_entry_a \<noteq> Index payload_entry_b \<and>
   Type payload_entry_a \<noteq> Type payload_entry_b \<and>
   payloadSize payload_entry_a = payloadSize payload_entry_b \<and>
   payloadSize payload_entry_a = 3 \<and>
   payloadsSize ([payload_entry_a] @ [payload_entry_b]) = 6"
proof -
  have d: "Data payload_entry_a = Data payload_entry_b"
    by (simp add: payload_entry_a_def payload_entry_b_def)
  have same: "payloadSize payload_entry_a = payloadSize payload_entry_b"
    using payloadsSize_additive_payload_only [where ?e1.0 = payload_entry_a
        and ?e2.0 = payload_entry_b] d
    by blast
  have three: "payloadSize payload_entry_a = 3"
    by (simp add: payloadSize_def len_bytes_def payload_entry_a_def)
  have one: "payloadsSize [e] = payloadSize e" for e
    by (simp add: payloadsSize_def)
  have "payloadsSize ([payload_entry_a] @ [payload_entry_b]) =
        payloadsSize [payload_entry_a] + payloadsSize [payload_entry_b]"
    using payloadsSize_additive_payload_only [where a = "[payload_entry_a]"
        and b = "[payload_entry_b]"]
    by blast
  then have six: "payloadsSize ([payload_entry_a] @ [payload_entry_b]) = 6"
    using same three by (simp add: one)
  show ?thesis
    using d same three six by (simp add: payload_entry_a_def payload_entry_b_def)
qed

section \<open>Properties of the message-kind tables\<close>

lemma fold_max_ge: "(b::int) \<le> fold max ks b"
  by (induction ks arbitrary: b) (auto intro: order_trans [OF max.cobounded2])

lemma fold_max_mem: "k \<in> set ks \<Longrightarrow> (k::int) \<le> fold max ks b"
proof (induction ks arbitrary: b)
  case Nil
  then show ?case by simp
next
  case (Cons a ks)
  show ?case
  proof (cases "k = a")
    case True
    have "a \<le> max a b" by simp
    also have "\<dots> \<le> fold max ks (max a b)" by (rule fold_max_ge)
    finally show ?thesis using True by simp
  next
    case False
    with Cons show ?thesis by simp
  qed
qed

lemma length_keyed_bools: "length (keyed_bools ks) = nat (fold max ks (- 1) + 1)"
  by (simp add: keyed_bools_def)

text \<open>A lookup with a non-negative number never faults: it says whether the number is a key.\<close>

lemma isMsgInArray_keyed_nonneg:
  assumes "0 \<le> sint msgt"
  shows "isMsgInArray msgt (keyed_bools ks) = Inr (sint msgt \<in> set ks)"
proof (cases "sint msgt < int (length (keyed_bools ks))")
  case True
  then have "nat (sint msgt) < nat (fold max ks (- 1) + 1)"
    using assms by (simp add: length_keyed_bools split: if_splits)
  then have "keyed_bools ks ! nat (sint msgt) = (sint msgt \<in> set ks)"
    using assms by (simp add: keyed_bools_def)
  then show ?thesis using True assms by (simp add: isMsgInArray_def index_bool_def)
next
  case False
  then have "fold max ks (- 1) < sint msgt"
    using assms by (simp add: length_keyed_bools split: if_splits)
  then have "sint msgt \<notin> set ks" using fold_max_mem [of "sint msgt" ks "- 1"] by auto
  then show ?thesis using False by (simp add: isMsgInArray_def)
qed

text \<open>In any table, a non-negative number beyond the table is answered false, without fault.\<close>

lemma isMsgInArray_nonneg_total:
  assumes "0 \<le> sint msgt"
  shows "isMsgInArray msgt arr =
           Inr (nat (sint msgt) < length arr \<and> arr ! nat (sint msgt))"
  using assms by (auto simp: isMsgInArray_def index_bool_def Let_def)

text \<open>A lookup with a negative number passes the guard and faults on the index.\<close>

lemma isMsgInArray_negative:
  assumes "sint msgt < 0"
  shows "isMsgInArray msgt arr = Inl IndexOutOfRange"
  using assms by (simp add: isMsgInArray_def index_bool_def)

lemma sint_raftpb_mem:
  assumes "inj raftpb"
  shows "sint (raftpb k) \<in> set (map (\<lambda>k. sint (raftpb k)) ks) \<longleftrightarrow> k \<in> set ks"
proof -
  have "inj (\<lambda>k. sint (raftpb k))"
    using assms by (auto simp: inj_def dest: signed_word_eqI)
  then show ?thesis
    using inj_image_mem_iff [of "\<lambda>k. sint (raftpb k)" k "set ks"] by simp
qed

lemma inj_raft_proto: "inj raft_proto"
proof (rule injI)
  fix x y
  assume "raft_proto x = raft_proto y"
  then show "x = y" by (cases x; cases y; simp)
qed

lemma nonneg_raft_proto: "0 \<le> sint (raft_proto k)"
  by (cases k) simp_all

text \<open>
  Claim C5. Whatever distinct, non-negative numbers the kinds have, \<open>IsLocalMsg\<close> answers
  true on exactly the nine kinds MsgHup, MsgBeat, MsgUnreachable, MsgSnapStatus,
  MsgCheckQuorum, MsgStorageAppend, MsgStorageAppendResp, MsgStorageApply and
  MsgStorageApplyResp and false on every other kind, and \<open>IsResponseMsg\<close> answers true on
  exactly MsgAppResp, MsgVoteResp, MsgHeartbeatResp, MsgUnreachable, MsgReadIndexResp,
  MsgPreVoteResp, MsgStorageAppendResp and MsgStorageApplyResp.
\<close>

theorem IsLocalMsg_IsResponseMsg_classify:
  assumes "inj raftpb" and "\<forall>k. 0 \<le> sint (raftpb k)"
  shows "IsLocalMsg raftpb (raftpb k) =
           Inr (k \<in> {MsgHup, MsgBeat, MsgUnreachable, MsgSnapStatus, MsgCheckQuorum,
                     MsgStorageAppend, MsgStorageAppendResp, MsgStorageApply,
                     MsgStorageApplyResp}) \<and>
         IsResponseMsg raftpb (raftpb k) =
           Inr (k \<in> {MsgAppResp, MsgVoteResp, MsgHeartbeatResp, MsgUnreachable,
                     MsgReadIndexResp, MsgPreVoteResp, MsgStorageAppendResp,
                     MsgStorageApplyResp})"
proof -
  have nn: "0 \<le> sint (raftpb k)" using assms(2) by blast
  show ?thesis
    unfolding IsLocalMsg_def IsResponseMsg_def isLocalMsg_def isResponseMsg_def
      isMsgInArray_keyed_nonneg [OF nn] sint_raftpb_mem [OF assms(1)]
    by simp
qed

theorem IsLocalMsg_IsResponseMsg_classify_witness:
  "inj raft_proto \<and> (\<forall>k. 0 \<le> sint (raft_proto k)) \<and>
   IsLocalMsg raft_proto 0 = Inr True \<and> IsResponseMsg raft_proto 0 = Inr False \<and>
   IsLocalMsg raft_proto 4 = Inr False \<and> IsResponseMsg raft_proto 4 = Inr True \<and>
   IsLocalMsg raft_proto 20 = Inr True \<and> IsResponseMsg raft_proto 20 = Inr True \<and>
   IsLocalMsg raft_proto 2 = Inr False \<and> IsResponseMsg raft_proto 2 = Inr False"
proof -
  have nn: "\<forall>k. 0 \<le> sint (raft_proto k)" using nonneg_raft_proto by blast
  show ?thesis
    using IsLocalMsg_IsResponseMsg_classify [OF inj_raft_proto nn, of MsgHup]
      IsLocalMsg_IsResponseMsg_classify [OF inj_raft_proto nn, of MsgAppResp]
      IsLocalMsg_IsResponseMsg_classify [OF inj_raft_proto nn, of MsgStorageAppendResp]
      IsLocalMsg_IsResponseMsg_classify [OF inj_raft_proto nn, of MsgProp]
      inj_raft_proto nn
    by simp
qed

text \<open>
  Claim C6. \<open>voteRespMsgType\<close> maps MsgVote to MsgVoteResp and MsgPreVote to
  MsgPreVoteResp, and it panics exactly on every other value; so on MsgVote or MsgPreVote
  it returns. The two kinds have different numbers (Go rejects a switch with a repeated
  constant).
\<close>

theorem voteRespMsgType_total_on_votes:
  assumes "raftpb MsgVote \<noteq> raftpb MsgPreVote"
  shows "voteRespMsgType raftpb (raftpb MsgVote) = Inr (raftpb MsgVoteResp) \<and>
         voteRespMsgType raftpb (raftpb MsgPreVote) = Inr (raftpb MsgPreVoteResp) \<and>
         ((\<exists>f. voteRespMsgType raftpb msgt = Inl f) \<longleftrightarrow>
            (msgt \<noteq> raftpb MsgVote \<and> msgt \<noteq> raftpb MsgPreVote)) \<and>
         ((msgt = raftpb MsgVote \<or> msgt = raftpb MsgPreVote) \<longrightarrow>
            (\<exists>r. voteRespMsgType raftpb msgt = Inr r))"
  using assms by (auto simp: voteRespMsgType_def)

theorem voteRespMsgType_total_on_votes_witness:
  "raft_proto MsgVote \<noteq> raft_proto MsgPreVote \<and>
   voteRespMsgType raft_proto 5 = Inr 6 \<and> voteRespMsgType raft_proto 17 = Inr 18 \<and>
   (\<exists>f. voteRespMsgType raft_proto 3 = Inl f) \<and>
   (\<exists>r. voteRespMsgType raft_proto 17 = Inr r)"
proof -
  have d: "raft_proto MsgVote \<noteq> raft_proto MsgPreVote" by simp
  show ?thesis
    using voteRespMsgType_total_on_votes [OF d, of 3]
      voteRespMsgType_total_on_votes [OF d, of 17]
    by simp
qed

text \<open>
  Claim C9 says that the two classifications never fault, whatever number the message
  type holds. The guard of \<open>isMsgInArray\<close> bounds the index from above only: a negative
  message type passes it and the index expression panics, in any table.
\<close>

theorem isMsgInArray_negative_index_panics:
  "isMsgInArray (- 1) arr = Inl IndexOutOfRange \<and>
   IsLocalMsg raftpb (- 1) = Inl IndexOutOfRange \<and>
   IsResponseMsg raftpb (- 1) = Inl IndexOutOfRange"
  by (simp add: IsLocalMsg_def IsResponseMsg_def isMsgInArray_negative)

section \<open>Properties of \<open>extend\<close>\<close>

lemma extend_elems:
  assumes "wf_slice dst" "wf_slice vals"
  shows "elems (extend dst vals) = elems dst @ elems vals"
proof (cases "s_len dst + s_len vals \<le> go_cap dst")
  case True
  then show ?thesis using assms
    by (simp add: extend_def Let_def append_in_place_def elems_def wf_slice_def go_cap_def)
next
  case False
  then show ?thesis using assms
    by (simp add: extend_def Let_def go_copy_from_def go_copy_def go_make_def elems_def
        wf_slice_def go_cap_def min_def)
qed

lemma go_append_elems:
  assumes "wf_slice dst" "wf_slice vals"
  shows "elems (go_append grow dst vals) = elems dst @ elems vals"
  using assms
  by (simp add: go_append_def Let_def append_in_place_def elems_def wf_slice_def go_cap_def)

text \<open>
  Claim C7. For all slices \<open>dst\<close> and \<open>vals\<close>, the elements of \<open>extend(dst, vals)\<close> are
  those of the built-in \<open>append(dst, vals...)\<close>, the elements of \<open>dst\<close> followed by those
  of \<open>vals\<close>, whatever the capacity of \<open>dst\<close> and however the built-in grows an array.
\<close>

theorem extend_refines_append:
  assumes "wf_slice dst" and "wf_slice vals"
  shows "elems (extend dst vals) = elems (go_append grow dst vals) \<and>
         elems (extend dst vals) = elems dst @ elems vals"
  using assms by (simp add: extend_elems go_append_elems)

theorem extend_refines_append_witness:
  "wf_slice \<lparr>s_arr = [sample_entry 1, sample_entry 7, sample_entry 8], s_len = 1\<rparr> \<and>
   wf_slice \<lparr>s_arr = [sample_entry 1], s_len = 1\<rparr> \<and>
   wf_slice \<lparr>s_arr = [sample_entry 2, sample_entry 3, sample_entry 9], s_len = 2\<rparr> \<and>
   elems (extend \<lparr>s_arr = [sample_entry 1, sample_entry 7, sample_entry 8], s_len = 1\<rparr>
            \<lparr>s_arr = [sample_entry 2, sample_entry 3, sample_entry 9], s_len = 2\<rparr>) =
     [sample_entry 1, sample_entry 2, sample_entry 3] \<and>
   elems (extend \<lparr>s_arr = [sample_entry 1], s_len = 1\<rparr>
            \<lparr>s_arr = [sample_entry 2, sample_entry 3, sample_entry 9], s_len = 2\<rparr>) =
     [sample_entry 1, sample_entry 2, sample_entry 3]"
proof -
  let ?roomy = "\<lparr>s_arr = [sample_entry 1, sample_entry 7, sample_entry 8], s_len = 1\<rparr>"
  let ?tight = "\<lparr>s_arr = [sample_entry 1], s_len = 1\<rparr>"
  let ?vals = "\<lparr>s_arr = [sample_entry 2, sample_entry 3, sample_entry 9], s_len = 2\<rparr>"
  have w1: "wf_slice ?roomy" and w2: "wf_slice ?tight" and w3: "wf_slice ?vals"
    by (simp_all add: wf_slice_def)
  show ?thesis
    using extend_refines_append [OF w1 w3] extend_refines_append [OF w2 w3] w1 w2 w3
    by (simp add: elems_def)
qed

section \<open>Properties of \<open>DescribeEntry\<close>\<close>

lemma DescribeEntry_nil_default:
  "DescribeEntry env e None = DescribeEntry env e (Some (default_formatter env))"
  by (simp add: DescribeEntry_def)

lemma DescribeEntry_nil_returns: "\<exists>s. DescribeEntry env e None = Inr s"
  by (simp add: DescribeEntry_def call_formatter_def Let_def split: EntryType.split sum.split)

lemma DescribeEntries_nil_default:
  "DescribeEntries env ents None = DescribeEntries env ents (Some (default_formatter env))"
  by (induction ents) (simp_all add: DescribeEntry_nil_default split: sum.split)

lemma DescribeEntries_nil_returns: "\<exists>s. DescribeEntries env ents None = Inr s"
proof (induction ents)
  case Nil
  show ?case by simp
next
  case (Cons e ents)
  obtain s where "DescribeEntry env e None = Inr s" using DescribeEntry_nil_returns by blast
  with Cons show ?case by auto
qed

text \<open>
  Claim C8. For every entry, \<open>DescribeEntry\<close> with a nil formatter returns a string, the
  one it returns with the default renderer (which quotes the payload bytes); the same
  holds of \<open>DescribeEntries\<close>. A nil formatter is never called.
\<close>

theorem DescribeEntry_nil_formatter_is_default:
  "DescribeEntry env e None = DescribeEntry env e (Some (default_formatter env)) \<and>
   (\<exists>s. DescribeEntry env e None = Inr s) \<and>
   DescribeEntries env ents None = DescribeEntries env ents (Some (default_formatter env)) \<and>
   (\<exists>s. DescribeEntries env ents None = Inr s)"
  using DescribeEntry_nil_default DescribeEntry_nil_returns DescribeEntries_nil_default
    DescribeEntries_nil_returns
  by blast

section \<open>Properties of the test network\<close>

subsection \<open>The random drops play no part when no drop rate is set\<close>

lemma filter_net_rnd_free:
  "dropm64 nw = Map.empty \<Longrightarrow>
   map_sum (\<lambda>flt. flt) fst (filter_net nw rnd pos ms) =
   map_sum (\<lambda>flt. flt) fst (filter_net nw rnd' pos' ms)"
proof (induction ms arbitrary: pos pos')
  case Nil
  show ?case by simp
next
  case (Cons m ms)
  have a: "map_sum (\<lambda>flt. flt) fst (filter_net nw rnd pos ms) =
           map_sum (\<lambda>flt. flt) fst (filter_net nw rnd' pos' ms)"
    and b: "map_sum (\<lambda>flt. flt) fst (filter_net nw rnd (Suc pos) ms) =
            map_sum (\<lambda>flt. flt) fst (filter_net nw rnd' (Suc pos') ms)"
    using Cons.IH [OF Cons.prems] by blast+
  show ?case
    using a b Cons.prems
    by (auto simp: Let_def split: sum.splits option.splits)
qed

lemma filter_net_rnd_cases:
  assumes "dropm64 nw = Map.empty"
  shows "(\<exists>flt. filter_net nw rnd pos ms = Inl flt \<and> filter_net nw rnd' pos' ms = Inl flt) \<or>
         (\<exists>kept p1 p2. filter_net nw rnd pos ms = Inr (kept, p1) \<and>
                        filter_net nw rnd' pos' ms = Inr (kept, p2))"
  using filter_net_rnd_free [OF assms, of rnd pos ms rnd' pos']
  by (cases "filter_net nw rnd pos ms"; cases "filter_net nw rnd' pos' ms") auto

lemma send_rnd_free:
  "dropm64 nw = Map.empty \<Longrightarrow> send fuel rnd pos nw ms = send fuel rnd' pos' nw ms"
proof (induction fuel arbitrary: pos pos' nw ms)
  case 0
  show ?case by (cases ms) simp_all
next
  case (Suc fuel)
  show ?case
  proof (cases ms)
    case Nil
    then show ?thesis by simp
  next
    case (Cons m ms')
    have step: "send fuel rnd p1 (nw\<lparr>peers := (peers nw)(mTo m \<mapsto> p)\<rparr>) (ms' @ kept) =
                send fuel rnd' p2 (nw\<lparr>peers := (peers nw)(mTo m \<mapsto> p)\<rparr>) (ms' @ kept)"
      for p1 p2 p kept
      using Suc.prems by (intro Suc.IH) simp
    have tail: "(case filter_net nw rnd pos out of
                   Inl flt \<Rightarrow> Some (Inl flt)
                 | Inr (kept, pos') \<Rightarrow>
                     send fuel rnd pos' (nw\<lparr>peers := (peers nw)(mTo m \<mapsto> p)\<rparr>) (ms' @ kept)) =
                (case filter_net nw rnd' pos' out of
                   Inl flt \<Rightarrow> Some (Inl flt)
                 | Inr (kept, pos') \<Rightarrow>
                     send fuel rnd' pos' (nw\<lparr>peers := (peers nw)(mTo m \<mapsto> p)\<rparr>) (ms' @ kept))"
      for out p
      using filter_net_rnd_cases [OF Suc.prems, of rnd pos out rnd' pos'] step by auto
    show ?thesis
      unfolding Cons send.simps
      by (simp add: tail split: option.split sum.split prod.split)
  qed
qed

subsection \<open>More fuel does not change a run that has ended\<close>

lemma advance_mono:
  "advanceMessagesAfterAppend n r \<noteq> None \<Longrightarrow>
   advanceMessagesAfterAppend (n + k) r = advanceMessagesAfterAppend n r"
proof (induction n arbitrary: r)
  case 0
  then show ?case by simp
next
  case (Suc n)
  then show ?case
    by (auto simp: takeMessagesAfterAppend_def split: if_splits sum.splits prod.splits)
qed

lemma readMessages_mono:
  "readMessages n r \<noteq> None \<Longrightarrow> readMessages (n + k) r = readMessages n r"
  unfolding readMessages_def
  by (cases "advanceMessagesAfterAppend n r") (simp_all add: advance_mono)

lemma sm_advance_mono:
  "sm_advanceMessagesAfterAppend n p \<noteq> None \<Longrightarrow>
   sm_advanceMessagesAfterAppend (n + k) p = sm_advanceMessagesAfterAppend n p"
  unfolding sm_advanceMessagesAfterAppend_def
  by (cases p; cases "advanceMessagesAfterAppend n (case p of SM_raft r \<Rightarrow> r)")
    (simp_all add: advance_mono)

lemma sm_readMessages_mono:
  "sm_readMessages n p \<noteq> None \<Longrightarrow> sm_readMessages (n + k) p = sm_readMessages n p"
  unfolding sm_readMessages_def
  by (cases p; cases "readMessages n (case p of SM_raft r \<Rightarrow> r)")
    (simp_all add: readMessages_mono)

lemma send_mono:
  "send n rnd pos nw ms \<noteq> None \<Longrightarrow> send (n + k) rnd pos nw ms = send n rnd pos nw ms"
proof (induction n arbitrary: pos nw ms)
  case 0
  then show ?case by (cases ms) simp_all
next
  case (Suc n)
  show ?case
  proof (cases ms)
    case Nil
    then show ?thesis by simp
  next
    case (Cons m ms')
    show ?thesis
    proof (cases "peers nw (mTo m)")
      case None
      then show ?thesis by (simp add: Cons)
    next
      case (Some p)
      show ?thesis
      proof (cases "sm_Step p m")
        case (Inl flt)
        then show ?thesis by (simp add: Cons Some)
      next
        case (Inr pe)
        obtain p1 err where pe: "pe = (p1, err)" by (cases pe)
        have adv: "sm_advanceMessagesAfterAppend n p1 \<noteq> None"
          using Suc.prems by (auto simp: Cons Some Inr pe split: option.splits)
        show ?thesis
        proof (cases "sm_advanceMessagesAfterAppend n p1")
          case None
          with adv show ?thesis by simp
        next
          case a: (Some a)
          show ?thesis
          proof (cases a)
            case (Inl flt)
            then show ?thesis
              using sm_advance_mono [OF adv, of k] by (simp add: Cons Some Inr pe a)
          next
            case p2: (Inr p2)
            have rd: "sm_readMessages n p2 \<noteq> None"
              using Suc.prems by (auto simp: Cons Some Inr pe a p2 split: option.splits)
            show ?thesis
            proof (cases "sm_readMessages n p2")
              case None
              with rd show ?thesis by simp
            next
              case b: (Some b)
              show ?thesis
              proof (cases b)
                case (Inl flt)
                then show ?thesis
                  using sm_advance_mono [OF adv, of k] sm_readMessages_mono [OF rd, of k]
                  by (simp add: Cons Some Inr pe a p2 b)
              next
                case ob: (Inr ob)
                obtain out p3 where o: "ob = (out, p3)" by (cases ob)
                show ?thesis
                proof (cases "filter_net nw rnd pos out")
                  case (Inl flt)
                  then show ?thesis
                    using sm_advance_mono [OF adv, of k] sm_readMessages_mono [OF rd, of k]
                    by (simp add: Cons Some Inr pe a p2 b ob o)
                next
                  case f: (Inr kp)
                  obtain kept pos' where kp: "kp = (kept, pos')" by (cases kp)
                  have "send n rnd pos' (nw\<lparr>peers := (peers nw)(mTo m \<mapsto> p3)\<rparr>) (ms' @ kept) \<noteq> None"
                    using Suc.prems by (simp add: Cons Some Inr pe a p2 b ob o f kp)
                  then have
                    "send (n + k) rnd pos' (nw\<lparr>peers := (peers nw)(mTo m \<mapsto> p3)\<rparr>) (ms' @ kept) =
                     send n rnd pos' (nw\<lparr>peers := (peers nw)(mTo m \<mapsto> p3)\<rparr>) (ms' @ kept)"
                    by (rule Suc.IH)
                  then show ?thesis
                    using sm_advance_mono [OF adv, of k] sm_readMessages_mono [OF rd, of k]
                    by (simp add: Cons Some Inr pe a p2 b ob o f kp)
                qed
              qed
            qed
          qed
        qed
      qed
    qed
  qed
qed

lemma dropm64_newNetwork: "dropm64 (newNetworkWithConfigInit cf ps) = Map.empty"
  by (simp add: newNetworkWithConfigInit_def Let_def split: prod.split)

text \<open>
  A run on a network that \<open>newNetworkWithConfigInit\<close> built, once it has ended with some
  fuel and some random numbers, ends the same way with more fuel and any random numbers.
\<close>

lemma outcome_any_fuel_rnd:
  assumes "outcome (send n (\<lambda>_. 0) 0 (newNetworkWithConfigInit cf ps) ms) = Some res"
  shows "outcome (send (n + k) rnd pos (newNetworkWithConfigInit cf ps) ms) = Some res"
proof -
  let ?nw = "newNetworkWithConfigInit cf ps"
  have ne: "send n (\<lambda>_. 0) 0 ?nw ms \<noteq> None"
    using assms by (auto simp: outcome_def split: option.splits)
  have "send (n + k) rnd pos ?nw ms = send (n + k) (\<lambda>_. 0) 0 ?nw ms"
    by (rule send_rnd_free) (rule dropm64_newNetwork)
  also have "\<dots> = send n (\<lambda>_. 0) 0 ?nw ms"
    using ne by (rule send_mono)
  finally show ?thesis using assms by simp
qed

subsection \<open>Elections\<close>

lemma send_msg_keeps [simp]:
  "rstate (send_msg r m) = rstate r" "rTerm (send_msg r m) = rTerm r"
  "rid (send_msg r m) = rid r"
  by (simp_all add: send_msg_def Let_def)





lemma fresh_three_run:
  "outcome (send 20 (\<lambda>_. 0) 0 (newNetworkWithConfigInit None [None, None, None]) [hup_msg]) =
   Some (StateLeader, 1)"
  by code_simp

lemma fresh_three_prevote_run:
  "outcome (send 20 (\<lambda>_. 0) 0 (newNetworkWithConfigInit (Some preVoteConfig) [None, None, None])
     [hup_msg]) = Some (StateLeader, 1)"
  by code_simp

text \<open>
  Claim C2. In a network of three fresh nodes (empty logs, term 0, nothing dropped), the
  local election trigger delivered to node 1 and every message that follows, processed
  until none is left, leave node 1 as Leader at term 1: the run ends with 20 units of
  fuel or more, whatever the random numbers. With pre-vote enabled the result is the same.
\<close>

theorem hup_elects_leader_in_fresh_cluster:
  "outcome (send (20 + k) rnd pos (newNetworkWithConfigInit None [None, None, None]) [hup_msg]) =
     Some (StateLeader, 1) \<and>
   outcome (send (20 + k) rnd pos
     (newNetworkWithConfigInit (Some preVoteConfig) [None, None, None]) [hup_msg]) =
     Some (StateLeader, 1)"
  using outcome_any_fuel_rnd [OF fresh_three_run] outcome_any_fuel_rnd [OF fresh_three_prevote_run]
  by blast



subsection \<open>A PreCandidate whose peers are silent\<close>

lemma send_msg_keeps_more [simp]:
  "voters (send_msg r m) = voters r" "votes (send_msg r m) = votes r"
  "raftLog (send_msg r m) = raftLog r"
  by (simp_all add: send_msg_def Let_def)


















subsection \<open>Pre-vote: what ends a pre-candidacy\<close>








subsection \<open>Peers built before the network\<close>

lemma entsWithConfig_one:
  "\<exists>b. entsWithConfig None [1] = Inr b \<and> rid b = 1 \<and> voters b = [] \<and> rTerm b = 1 \<and>
       raftLog b = [\<lparr>Term = 1, Index = 1, Type = EntryNormal, Data = None\<rparr>]"
  by (simp add: entsWithConfig_def Let_def newRaft_def newTestConfig_def reset_def
      becomeFollower_def NewMemoryStorage_def ms_Append_def)

lemma prebuilt_three_run:
  "(case entsWithConfig None [1] of
      Inl flt \<Rightarrow> None
    | Inr b \<Rightarrow>
        outcome (send 20 (\<lambda>_. 0) 0
          (newNetworkWithConfigInit None [None, Some (SM_raft b), Some (SM_raft b)]) [hup_msg])) =
   Some (StateCandidate, 1)"
  by code_simp

text \<open>
  The last network of the table of \<open>testLeaderElection2\<close>, with five peers, for which
  the table expects Follower at term 1: without pre-vote and with it.
\<close>

lemma prebuilt_five_run:
  "(case (entsWithConfig None [1], entsWithConfig None [1, 1]) of
      (Inr b, Inr d) \<Rightarrow>
        outcome (send 20 (\<lambda>_. 0) 0
          (newNetworkWithConfigInit None
             [None, Some (SM_raft b), Some (SM_raft b), Some (SM_raft d), None]) [hup_msg])
    | _ \<Rightarrow> None) =
   Some (StateCandidate, 1)"
  by code_simp

lemma prebuilt_five_prevote_run:
  "(case (entsWithConfig (Some preVoteConfig) [1], entsWithConfig (Some preVoteConfig) [1, 1]) of
      (Inr b, Inr d) \<Rightarrow>
        outcome (send 20 (\<lambda>_. 0) 0
          (newNetworkWithConfigInit (Some preVoteConfig)
             [None, Some (SM_raft b), Some (SM_raft b), Some (SM_raft d), None]) [hup_msg])
    | _ \<Rightarrow> None) =
   Some (StatePreCandidate, 0)"
  by code_simp

lemma prebuilt_reply:
  "(case entsWithConfig None [1] of
      Inl flt \<Rightarrow> None
    | Inr b \<Rightarrow>
        (case Step b ((new_Message MsgVote 2)\<lparr>mFrom := 1, mTerm := 1\<rparr>) of
           Inl flt \<Rightarrow> None
         | Inr (b', err) \<Rightarrow>
             Some (map (\<lambda>m. (mType m, mFrom m, mTo m, mReject m)) (msgsAfterAppend b'), msgs b',
                   err))) =
   Some ([(MsgVoteResp, 1, 1, True)], [], None)"
  by code_simp

text \<open>
  Had the network given each prebuilt node its address as identifier and the addresses
  as voters, the rejections would reach node 1, which would end as Follower at term 1.
\<close>

lemma readdressed_three_run:
  "(case entsWithConfig None [1] of
      Inl flt \<Rightarrow> None
    | Inr b \<Rightarrow>
        outcome (send 20 (\<lambda>_. 0) 0
          (newNetworkWithConfigInit None
             [None, Some (SM_raft (reset (b\<lparr>rid := 2, voters := [1, 2, 3]\<rparr>) 1)),
              Some (SM_raft (reset (b\<lparr>rid := 3, voters := [1, 2, 3]\<rparr>) 1))]) [hup_msg])) =
   Some (StateFollower, 1)"
  by code_simp

text \<open>
  Claim C3 says that node 1 ends as Follower at term 1 when its two peers hold one more
  entry of term 1. In the network that raft2.go builds, each such peer comes from
  \<open>entsWithConfig\<close> with identifier 1 and is registered under address 2 or 3 as it is.
  It does reject the vote request on the log comparison, but signs the rejection as
  node 1 and addresses it to node 1, so \<open>stepOrSend\<close> steps it into the peer itself and
  it never leaves. Node 1 holds its own vote only, and ends as Candidate at term 1.
\<close>

theorem prebuilt_peers_leave_candidate:
  "\<exists>b. entsWithConfig None [1] = Inr b \<and> rid b = 1 \<and>
     (\<exists>b'. Step b ((new_Message MsgVote 2)\<lparr>mFrom := 1, mTerm := 1\<rparr>) = Inr (b', None) \<and>
        map (\<lambda>m. (mType m, mFrom m, mTo m, mReject m)) (msgsAfterAppend b') =
          [(MsgVoteResp, 1, 1, True)] \<and> msgs b' = []) \<and>
     outcome (send (20 + k) rnd pos
        (newNetworkWithConfigInit None [None, Some (SM_raft b), Some (SM_raft b)]) [hup_msg]) =
       Some (StateCandidate, 1)"
proof -
  obtain b where b: "entsWithConfig None [1] = Inr b" "rid b = 1"
    using entsWithConfig_one by blast
  have "outcome (send 20 (\<lambda>_. 0) 0
          (newNetworkWithConfigInit None [None, Some (SM_raft b), Some (SM_raft b)]) [hup_msg]) =
        Some (StateCandidate, 1)"
    using prebuilt_three_run by (simp add: b)
  then have run: "outcome (send (20 + k) rnd pos
          (newNetworkWithConfigInit None [None, Some (SM_raft b), Some (SM_raft b)]) [hup_msg]) =
        Some (StateCandidate, 1)"
    by (rule outcome_any_fuel_rnd)
  have reply: "\<exists>b'. Step b ((new_Message MsgVote 2)\<lparr>mFrom := 1, mTerm := 1\<rparr>) = Inr (b', None) \<and>
          map (\<lambda>m. (mType m, mFrom m, mTo m, mReject m)) (msgsAfterAppend b') =
            [(MsgVoteResp, 1, 1, True)] \<and> msgs b' = []"
    using prebuilt_reply
    by (auto simp: b split: sum.splits prod.splits option.splits)
  show ?thesis
  proof (rule exI [of _ b], intro conjI)
    show "entsWithConfig None [1] = Inr b" by (fact b(1))
    show "rid b = 1" by (fact b(2))
    show "\<exists>b'. Step b ((new_Message MsgVote 2)\<lparr>mFrom := 1, mTerm := 1\<rparr>) = Inr (b', None) \<and>
            map (\<lambda>m. (mType m, mFrom m, mTo m, mReject m)) (msgsAfterAppend b') =
              [(MsgVoteResp, 1, 1, True)] \<and> msgs b' = []"
      by (fact reply)
    show "outcome (send (20 + k) rnd pos
            (newNetworkWithConfigInit None [None, Some (SM_raft b), Some (SM_raft b)]) [hup_msg]) =
          Some (StateCandidate, 1)"
      by (fact run)
  qed
qed

end
